theory Spec2Isabelle
  imports Complex_Main
begin

section \<open>Emotion tracker dashboard: sensor simulation, classification, session history\<close>

text \<open>
  The development embeds the computational core of \<^verbatim>\<open>src/app/page.tsx\<close>:
  \<^verbatim>\<open>classifyEmotion\<close>, \<^verbatim>\<open>generateSensorData\<close>, the bootstrap effect, the interval
  callback that appends a reading, and the derived values \<^verbatim>\<open>emotionCounts\<close>,
  the dominant emotion and the \<^verbatim>\<open>EMOTIONS\<close> lookups.

  Modelling conventions.
  \<^item> A JavaScript \<^verbatim>\<open>number\<close> is a \<^typ>\<open>real\<close>: there is no NaN and no infinity.
    Timestamps are integers (milliseconds). The classifier and the generator are given twice:
    with exact arithmetic (\<open>classifyEmotion\<close>, \<open>generateSensorData\<close>), and with the
    rounding of the arithmetic as a parameter (\<open>classifyEmotion_fl\<close>,
    \<open>generateSensorData_fl\<close>), where the rounding \<open>binary64\<close> gives the arithmetic of the
    code and the identity gives the exact one. What depends on the exact value of a sum or a
    product (which score is larger at a tie, which decimal a value rounds to) is stated of
    the rounded form.
  \<^item> Every call of \<^verbatim>\<open>Math.random()\<close> is an explicit argument. One call of
    \<^verbatim>\<open>generateSensorData\<close> draws four times, in the order heart rate, EDA, temperature,
    confidence; the four draws are the record \<open>Draws\<close>. \<^verbatim>\<open>Date.now()\<close> is an explicit
    argument as well.
  \<^item> \<^verbatim>\<open>Array.prototype.reduce\<close> without an initial value throws a TypeError on an empty
    array; the model returns \<open>Inl TypeError\<close> there, and every caller threads the error.
  \<^item> A plain object used as a dictionary is an association list in insertion order, which is
    the enumeration order of \<^verbatim>\<open>Object.entries\<close> for keys that are not array indices.
\<close>

subsection \<open>Types\<close>

record SensorData =
  timestamp :: int
  heartRate :: real
  eda :: real
  temperature :: real
  emotion :: string
  confidence :: real

text \<open>The interface \<^verbatim>\<open>EmotionState\<close>; the icon component is represented by its name.\<close>

record EmotionState =
  es_emotion :: string
  es_confidence :: real
  es_color :: string
  es_icon :: string
  es_description :: string

text \<open>The object \<^verbatim>\<open>{ emotion, confidence }\<close> returned by \<^verbatim>\<open>classifyEmotion\<close>.\<close>

record Classification =
  c_emotion :: string
  c_confidence :: real

record Draws =
  r_heartRate :: real
  r_eda :: real
  r_temperature :: real
  r_confidence :: real

datatype error = TypeError

subsection \<open>JavaScript library functions used by the code\<close>

text \<open>\<^verbatim>\<open>arr.reduce(f)\<close> with no initial value: starts from the first element.\<close>

fun reduce :: "('a \<Rightarrow> 'a \<Rightarrow> 'a) \<Rightarrow> 'a list \<Rightarrow> error + 'a" where
  "reduce f [] = Inl TypeError"
| "reduce f (x # xs) = Inr (foldl f x xs)"

text \<open>The callback \<^verbatim>\<open>(a, b) => a[1] > b[1] ? a : b\<close> used by both arg-max computations.\<close>

definition pick_max :: "'k \<times> 'v::linorder \<Rightarrow> 'k \<times> 'v \<Rightarrow> 'k \<times> 'v" where
  "pick_max a b = (if snd a > snd b then a else b)"

text \<open>
  \<^verbatim>\<open>Number(x.toFixed(d))\<close>: the decimal with \<open>d\<close> fraction digits nearest to \<open>x\<close>, the
  larger one of two equally near; a negative \<open>x\<close> is rounded on its absolute value.
\<close>

definition toFixed :: "nat \<Rightarrow> real \<Rightarrow> real" where
  "toFixed d x =
     (if x < 0 then - (of_int \<lfloor>(- x) * 10 ^ d + 1 / 2\<rfloor> / 10 ^ d)
      else of_int \<lfloor>x * 10 ^ d + 1 / 2\<rfloor> / 10 ^ d)"

text \<open>
  \<^verbatim>\<open>prevData?.field || base\<close>: the base when there is no previous reading or when the
  field is falsy, which for a number means zero.
\<close>

definition or_base :: "real option \<Rightarrow> real \<Rightarrow> real" where
  "or_base v base = (case v of None \<Rightarrow> base | Some x \<Rightarrow> if x = 0 then base else x)"

text \<open>\<^verbatim>\<open>xs.slice(-n)\<close>: the last \<open>n\<close> elements, all of them when there are fewer.\<close>

definition slice_last :: "nat \<Rightarrow> 'a list \<Rightarrow> 'a list" where
  "slice_last n xs = drop (length xs - n) xs"

subsection \<open>The static table \<^verbatim>\<open>EMOTIONS\<close>\<close>

definition EMOTIONS :: "string \<rightharpoonup> EmotionState" where
  "EMOTIONS = [
     ''calm'' \<mapsto> \<lparr>es_emotion = ''Calm'', es_confidence = 0, es_color = ''#10B981'',
                 es_icon = ''Smile'', es_description = ''Relaxed and peaceful state''\<rparr>,
     ''happy'' \<mapsto> \<lparr>es_emotion = ''Happy'', es_confidence = 0, es_color = ''#F59E0B'',
                 es_icon = ''Smile'', es_description = ''Positive and joyful state''\<rparr>,
     ''stressed'' \<mapsto> \<lparr>es_emotion = ''Stressed'', es_confidence = 0, es_color = ''#EF4444'',
                 es_icon = ''Frown'', es_description = ''High tension and anxiety''\<rparr>,
     ''focused'' \<mapsto> \<lparr>es_emotion = ''Focused'', es_confidence = 0, es_color = ''#3B82F6'',
                 es_icon = ''Brain'', es_description = ''Concentrated and alert''\<rparr>,
     ''neutral'' \<mapsto> \<lparr>es_emotion = ''Neutral'', es_confidence = 0, es_color = ''#6B7280'',
                 es_icon = ''Meh'', es_description = ''Balanced emotional state''\<rparr>]"

subsection \<open>\<^verbatim>\<open>classifyEmotion\<close>\<close>

text \<open>
  The parameters \<^verbatim>\<open>heartRate\<close>, \<^verbatim>\<open>eda\<close>, \<^verbatim>\<open>temperature\<close> are written \<open>hr\<close>, \<open>ed\<close>,
  \<open>tmp\<close>, the field names of \<open>SensorData\<close> being taken. \<open>features\<close> is the array of the
  three normalised inputs.
\<close>

definition features :: "real \<Rightarrow> real \<Rightarrow> real \<Rightarrow> real \<times> real \<times> real" where
  "features hr ed tmp = ((hr - 70) / 50, (ed - 5) / 10, (tmp - 36.5) / 2)"

text \<open>\<^verbatim>\<open>Object.entries(scores)\<close>: the five scores in the order the object literal lists them.\<close>

definition scores :: "real \<Rightarrow> real \<Rightarrow> real \<Rightarrow> (string \<times> real) list" where
  "scores hr ed tmp =
     (case features hr ed tmp of (f0, f1, f2) \<Rightarrow>
        [(''calm'', - f0 * 0.5 - f1 * 0.3 + f2 * 0.2),
         (''happy'', f0 * 0.3 - f1 * 0.2 + f2 * 0.4),
         (''stressed'', f0 * 0.8 + f1 * 0.6 - f2 * 0.1),
         (''focused'', f0 * 0.4 + f1 * 0.1 + f2 * 0.1),
         (''neutral'', - \<bar>f0\<bar> - \<bar>f1\<bar> - \<bar>f2\<bar>)])"

definition classifyEmotion :: "real \<Rightarrow> real \<Rightarrow> real \<Rightarrow> real \<Rightarrow> error + Classification" where
  "classifyEmotion hr ed tmp rnd =
     (case reduce pick_max (scores hr ed tmp) of
        Inl e \<Rightarrow> Inl e
      | Inr maxEntry \<Rightarrow>
          Inr \<lparr>c_emotion = fst maxEntry, c_confidence = min (94 + rnd * 6) 100\<rparr>)"

subsection \<open>\<^verbatim>\<open>generateSensorData\<close>\<close>

text \<open>The three local constants of \<^verbatim>\<open>generateSensorData\<close>: the clamped, unrounded channels.\<close>

definition rawHeartRate :: "SensorData option \<Rightarrow> Draws \<Rightarrow> real" where
  "rawHeartRate prevData rnd =
     max 50 (min 120 (or_base (map_option heartRate prevData) 72 + (r_heartRate rnd - 0.5) * 8))"

definition rawEda :: "SensorData option \<Rightarrow> Draws \<Rightarrow> real" where
  "rawEda prevData rnd =
     max 2 (min 15 (or_base (map_option eda prevData) 6 + (r_eda rnd - 0.5) * 2))"

definition rawTemperature :: "SensorData option \<Rightarrow> Draws \<Rightarrow> real" where
  "rawTemperature prevData rnd =
     max 35.5 (min 38.5
       (or_base (map_option temperature prevData) 36.8 + (r_temperature rnd - 0.5) * 0.4))"

definition generateSensorData :: "int \<Rightarrow> SensorData option \<Rightarrow> Draws \<Rightarrow> error + SensorData" where
  "generateSensorData now prevData rnd =
     (case classifyEmotion (rawHeartRate prevData rnd) (rawEda prevData rnd)
             (rawTemperature prevData rnd) (r_confidence rnd) of
        Inl e \<Rightarrow> Inl e
      | Inr c \<Rightarrow>
          Inr \<lparr>timestamp = now,
               heartRate = toFixed 1 (rawHeartRate prevData rnd),
               eda = toFixed 2 (rawEda prevData rnd),
               temperature = toFixed 1 (rawTemperature prevData rnd),
               emotion = c_emotion c,
               confidence = toFixed 1 (c_confidence c)\<rparr>)"

subsection \<open>Binary64 arithmetic\<close>

text \<open>
  The code computes in IEEE 754 binary64. Each arithmetic operation returns the exact result
  rounded to the nearest number with a 53-bit significand, ties to the even significand, and
  a decimal literal denotes the nearest such number. \<open>binary64\<close> is that rounding, with an
  unbounded exponent: the values that occur here are far from the overflow and subnormal
  ranges. \<open>expo x\<close> is the exponent of the binade of \<open>x\<close>, \<open>pow2 e\<close> is \<open>2\<close> to the power
  \<open>e\<close>, and \<open>round_even\<close> rounds to the nearest integer, ties to even.
\<close>

definition pow2 :: "int \<Rightarrow> real" where
  "pow2 e = (if 0 \<le> e then 2 ^ nat e else 1 / 2 ^ nat (- e))"

function expo :: "real \<Rightarrow> int" where
  "expo x =
     (if x = 0 then 0
      else if 2 \<le> \<bar>x\<bar> then expo (x / 2) + 1
      else if \<bar>x\<bar> < 1 then expo (x * 2) - 1
      else 0)"
  by pat_completeness auto
termination
proof (relation "measure (\<lambda>x. nat \<bar>\<lfloor>log 2 \<bar>x\<bar>\<rfloor>\<bar>)")
  show "wf (measure (\<lambda>x. nat \<bar>\<lfloor>log 2 \<bar>x\<bar>\<rfloor>\<bar>))"
    by simp
next
  fix x :: real
  assume x: "x \<noteq> 0" "2 \<le> \<bar>x\<bar>"
  have l: "log 2 \<bar>x / 2\<bar> = log 2 \<bar>x\<bar> - 1"
    using x by (simp add: log_divide)
  have "1 \<le> log 2 \<bar>x\<bar>"
    using x(2) by (simp add: le_log_iff)
  then have "1 \<le> \<lfloor>log 2 \<bar>x\<bar>\<rfloor>"
    by (simp add: le_floor_iff)
  moreover have "\<lfloor>log 2 \<bar>x / 2\<bar>\<rfloor> = \<lfloor>log 2 \<bar>x\<bar>\<rfloor> - 1"
    unfolding l by simp
  ultimately have "nat \<bar>\<lfloor>log 2 \<bar>x / 2\<bar>\<rfloor>\<bar> < nat \<bar>\<lfloor>log 2 \<bar>x\<bar>\<rfloor>\<bar>"
    by linarith
  then show "(x / 2, x) \<in> measure (\<lambda>x. nat \<bar>\<lfloor>log 2 \<bar>x\<bar>\<rfloor>\<bar>)"
    by simp
next
  fix x :: real
  assume x: "x \<noteq> 0" "\<not> 2 \<le> \<bar>x\<bar>" "\<bar>x\<bar> < 1"
  have l: "log 2 \<bar>x * 2\<bar> = log 2 \<bar>x\<bar> + 1"
    using x by (simp add: log_mult abs_mult)
  have "log 2 \<bar>x\<bar> < 0"
    using x by (simp add: log_less_zero_cancel_iff)
  then have a: "\<lfloor>log 2 \<bar>x\<bar>\<rfloor> < 0"
    by (simp add: floor_less_iff)
  have b: "\<lfloor>log 2 \<bar>x * 2\<bar>\<rfloor> = \<lfloor>log 2 \<bar>x\<bar>\<rfloor> + 1"
    unfolding l by simp
  have "nat \<bar>\<lfloor>log 2 \<bar>x * 2\<bar>\<rfloor>\<bar> < nat \<bar>\<lfloor>log 2 \<bar>x\<bar>\<rfloor>\<bar>"
    using a b by linarith
  then show "(x * 2, x) \<in> measure (\<lambda>x. nat \<bar>\<lfloor>log 2 \<bar>x\<bar>\<rfloor>\<bar>)"
    by simp
qed

declare expo.simps [simp del]

definition round_even :: "real \<Rightarrow> int" where
  "round_even y =
     (let n = \<lfloor>y\<rfloor>; d = y - of_int n
      in if d < 1 / 2 then n else if 1 / 2 < d then n + 1 else if even n then n else n + 1)"

definition binary64 :: "real \<Rightarrow> real" where
  "binary64 x =
     (if x = 0 then 0
      else of_int (round_even (x / pow2 (expo x - 52))) * pow2 (expo x - 52))"

subsection \<open>The classifier and the generator in rounded arithmetic\<close>

text \<open>
  The same two functions with the rounding \<open>fl\<close> of the arithmetic as a parameter: every
  sum, difference, product and quotient passes through \<open>fl\<close>, and so does every decimal
  literal that is not a binary fraction (0.1, 0.2, 0.3, 0.4, 0.6, 0.8, 36.8) and the number
  read back from the text \<^verbatim>\<open>toFixed\<close> prints. Negation, \<^verbatim>\<open>Math.abs\<close>, \<^verbatim>\<open>Math.max\<close>,
  \<^verbatim>\<open>Math.min\<close> and comparisons are exact. With \<open>fl = binary64\<close> this is the arithmetic of
  the code; with the identity it is the exact arithmetic of the definitions above. The inputs
  and the draws of the code are binary64 numbers.
\<close>

definition features_fl :: "(real \<Rightarrow> real) \<Rightarrow> real \<Rightarrow> real \<Rightarrow> real \<Rightarrow> real \<times> real \<times> real" where
  "features_fl fl hr ed tmp =
     (fl (fl (hr - 70) / 50), fl (fl (ed - 5) / 10), fl (fl (tmp - 36.5) / 2))"

definition scores_fl :: "(real \<Rightarrow> real) \<Rightarrow> real \<Rightarrow> real \<Rightarrow> real \<Rightarrow> (string \<times> real) list" where
  "scores_fl fl hr ed tmp =
     (case features_fl fl hr ed tmp of (f0, f1, f2) \<Rightarrow>
        [(''calm'', fl (fl (fl (- f0 * 0.5) - fl (f1 * fl 0.3)) + fl (f2 * fl 0.2))),
         (''happy'', fl (fl (fl (f0 * fl 0.3) - fl (f1 * fl 0.2)) + fl (f2 * fl 0.4))),
         (''stressed'', fl (fl (fl (f0 * fl 0.8) + fl (f1 * fl 0.6)) - fl (f2 * fl 0.1))),
         (''focused'', fl (fl (fl (f0 * fl 0.4) + fl (f1 * fl 0.1)) + fl (f2 * fl 0.1))),
         (''neutral'', fl (fl (- \<bar>f0\<bar> - \<bar>f1\<bar>) - \<bar>f2\<bar>))])"

definition classifyEmotion_fl ::
  "(real \<Rightarrow> real) \<Rightarrow> real \<Rightarrow> real \<Rightarrow> real \<Rightarrow> real \<Rightarrow> error + Classification" where
  "classifyEmotion_fl fl hr ed tmp rnd =
     (case reduce pick_max (scores_fl fl hr ed tmp) of
        Inl e \<Rightarrow> Inl e
      | Inr maxEntry \<Rightarrow>
          Inr \<lparr>c_emotion = fst maxEntry, c_confidence = min (fl (94 + fl (rnd * 6))) 100\<rparr>)"

definition rawHeartRate_fl :: "(real \<Rightarrow> real) \<Rightarrow> SensorData option \<Rightarrow> Draws \<Rightarrow> real" where
  "rawHeartRate_fl fl prevData rnd =
     max 50 (min 120
       (fl (or_base (map_option heartRate prevData) 72 + fl (fl (r_heartRate rnd - 0.5) * 8))))"

definition rawEda_fl :: "(real \<Rightarrow> real) \<Rightarrow> SensorData option \<Rightarrow> Draws \<Rightarrow> real" where
  "rawEda_fl fl prevData rnd =
     max 2 (min 15 (fl (or_base (map_option eda prevData) 6 + fl (fl (r_eda rnd - 0.5) * 2))))"

definition rawTemperature_fl :: "(real \<Rightarrow> real) \<Rightarrow> SensorData option \<Rightarrow> Draws \<Rightarrow> real" where
  "rawTemperature_fl fl prevData rnd =
     max 35.5 (min 38.5
       (fl (or_base (map_option temperature prevData) (fl 36.8)
            + fl (fl (r_temperature rnd - 0.5) * fl 0.4))))"

definition generateSensorData_fl ::
  "(real \<Rightarrow> real) \<Rightarrow> int \<Rightarrow> SensorData option \<Rightarrow> Draws \<Rightarrow> error + SensorData" where
  "generateSensorData_fl fl now prevData rnd =
     (case classifyEmotion_fl fl (rawHeartRate_fl fl prevData rnd) (rawEda_fl fl prevData rnd)
             (rawTemperature_fl fl prevData rnd) (r_confidence rnd) of
        Inl e \<Rightarrow> Inl e
      | Inr c \<Rightarrow>
          Inr \<lparr>timestamp = now,
               heartRate = fl (toFixed 1 (rawHeartRate_fl fl prevData rnd)),
               eda = fl (toFixed 2 (rawEda_fl fl prevData rnd)),
               temperature = fl (toFixed 1 (rawTemperature_fl fl prevData rnd)),
               emotion = c_emotion c,
               confidence = fl (toFixed 1 (c_confidence c))\<rparr>)"

subsection \<open>The dashboard state and its two effects\<close>

text \<open>
  The component state: \<^verbatim>\<open>isTracking\<close>, \<^verbatim>\<open>sensorData\<close>, \<^verbatim>\<open>currentReading\<close> and
  \<^verbatim>\<open>batteryLevel\<close> (\<^verbatim>\<open>isConnected\<close> is never written).
\<close>

record Dashboard =
  isTracking :: bool
  sensorData :: "SensorData list"
  currentReading :: "SensorData option"
  batteryLevel :: real

definition initialState :: Dashboard where
  "initialState = \<lparr>isTracking = False, sensorData = [], currentReading = None, batteryLevel = 85\<rparr>"

text \<open>
  The loop of the first effect: iteration \<open>i\<close> generates a reading from the last one,
  overwrites its timestamp and pushes it. \<open>now i\<close> is the clock and \<open>rnd i\<close> the four draws
  of iteration \<open>i\<close>.
\<close>

function bootstrap_loop ::
  "nat \<Rightarrow> (nat \<Rightarrow> int) \<Rightarrow> (nat \<Rightarrow> Draws) \<Rightarrow> SensorData \<Rightarrow> SensorData list
     \<Rightarrow> error + (SensorData \<times> SensorData list)" where
  "bootstrap_loop i now rnd lastReading initialData =
     (if i < 50 then
        (case generateSensorData (now i) (Some lastReading) (rnd i) of
           Inl e \<Rightarrow> Inl e
         | Inr reading \<Rightarrow>
             (let reading' = reading\<lparr>timestamp := now i - (50 - int i) * 30000\<rparr>
              in bootstrap_loop (i + 1) now rnd reading' (initialData @ [reading'])))
      else Inr (lastReading, initialData))"
  by pat_completeness auto
termination
  by (relation "measure (\<lambda>(i, now, rnd, lastReading, initialData). 50 - i)") auto

declare bootstrap_loop.simps [simp del]

text \<open>The first effect: a seed reading with no previous one, then the loop.\<close>

definition bootstrap ::
  "int \<Rightarrow> Draws \<Rightarrow> (nat \<Rightarrow> int) \<Rightarrow> (nat \<Rightarrow> Draws) \<Rightarrow> Dashboard \<Rightarrow> error + Dashboard" where
  "bootstrap now0 rnd0 now rnd st =
     (case generateSensorData now0 None rnd0 of
        Inl e \<Rightarrow> Inl e
      | Inr seed \<Rightarrow>
          (case bootstrap_loop 0 now rnd seed [] of
             Inl e \<Rightarrow> Inl e
           | Inr (lastReading, initialData) \<Rightarrow>
               Inr (st\<lparr>sensorData := initialData, currentReading := Some lastReading\<rparr>)))"

text \<open>The state update \<^verbatim>\<open>prev => [...prev.slice(-100), newReading]\<close>.\<close>

definition append_reading :: "SensorData list \<Rightarrow> SensorData \<Rightarrow> SensorData list" where
  "append_reading prev newReading = slice_last 100 prev @ [newReading]"

text \<open>The interval callback of the second effect.\<close>

definition tick :: "int \<Rightarrow> Draws \<Rightarrow> Dashboard \<Rightarrow> error + Dashboard" where
  "tick now rnd st =
     (case generateSensorData now (currentReading st) rnd of
        Inl e \<Rightarrow> Inl e
      | Inr newReading \<Rightarrow>
          Inr (st\<lparr>sensorData := append_reading (sensorData st) newReading,
                  currentReading := Some newReading,
                  batteryLevel := max 0 (batteryLevel st - 0.1)\<rparr>))"

text \<open>\<^verbatim>\<open>Math.random()\<close> returns a number in \<open>[0, 1)\<close>.\<close>

definition valid_draw :: "real \<Rightarrow> bool" where
  "valid_draw r = (0 \<le> r \<and> r < 1)"

definition valid_draws :: "Draws \<Rightarrow> bool" where
  "valid_draws rnd =
     (valid_draw (r_heartRate rnd) \<and> valid_draw (r_eda rnd) \<and>
      valid_draw (r_temperature rnd) \<and> valid_draw (r_confidence rnd))"

text \<open>
  The states the component goes through: mounted by the first effect, the tracking button
  toggled, and the interval callback run while tracking is on.
\<close>

inductive reachable :: "Dashboard \<Rightarrow> bool" where
  mounted: "valid_draws rnd0 \<Longrightarrow> (\<And>i. valid_draws (rnd i)) \<Longrightarrow>
     bootstrap now0 rnd0 now rnd initialState = Inr st \<Longrightarrow> reachable st"
| toggled: "reachable st \<Longrightarrow> reachable (st\<lparr>isTracking := \<not> isTracking st\<rparr>)"
| ticked: "reachable st \<Longrightarrow> isTracking st \<Longrightarrow> valid_draws rnd \<Longrightarrow>
     tick now rnd st = Inr st' \<Longrightarrow> reachable st'"

subsection \<open>Derived values\<close>

text \<open>
  \<^verbatim>\<open>acc[k] = (acc[k] || 0) + 1\<close> on an object: an existing key keeps its place, a new key
  goes last. A stored count is never zero, so \<^verbatim>\<open>acc[k] || 0\<close> is the stored count.
\<close>

fun increment :: "(string \<times> nat) list \<Rightarrow> string \<Rightarrow> (string \<times> nat) list" where
  "increment [] k = [(k, 1)]"
| "increment ((k', n) # acc) k =
     (if k' = k then (k', (if n = 0 then 0 else n) + 1) # acc else (k', n) # increment acc k)"

definition emotionCounts :: "SensorData list \<Rightarrow> (string \<times> nat) list" where
  "emotionCounts history = foldl (\<lambda>acc data. increment acc (emotion data)) [] history"

text \<open>
  The ``Dominant Emotion'' cell:
  \<^verbatim>\<open>sensorData.length > 0 ? Object.entries(emotionCounts).reduce(...)[0] : 'N/A'\<close>.
\<close>

definition dominantEmotion :: "SensorData list \<Rightarrow> error + string" where
  "dominantEmotion history =
     (if length history > 0 then
        (case reduce pick_max (emotionCounts history) of
           Inl e \<Rightarrow> Inl e
         | Inr a \<Rightarrow> Inr (fst a))
      else Inr ''N/A'')"

text \<open>\<^verbatim>\<open>s || d\<close> on strings: the empty string is falsy.\<close>

definition or_string :: "string option \<Rightarrow> string \<Rightarrow> string" where
  "or_string v d = (case v of None \<Rightarrow> d | Some s \<Rightarrow> if s = [] then d else s)"

text \<open>
  The two lookups of \<^verbatim>\<open>pieData\<close>: \<^verbatim>\<open>EMOTIONS[emotion]?.emotion || emotion\<close> and
  \<^verbatim>\<open>EMOTIONS[emotion]?.color || '#6B7280'\<close>.
\<close>

definition pieName :: "string \<Rightarrow> string" where
  "pieName e = or_string (map_option es_emotion (EMOTIONS e)) e"

definition pieFill :: "string \<Rightarrow> string" where
  "pieFill e = or_string (map_option es_color (EMOTIONS e)) ''#6B7280''"

text \<open>
  \<^verbatim>\<open>currentReading ? EMOTIONS[currentReading.emotion] : EMOTIONS.neutral\<close>; the result is
  \<open>None\<close> (undefined) for a reading whose emotion is not a key of the table.
\<close>

definition currentEmotion :: "SensorData option \<Rightarrow> EmotionState option" where
  "currentEmotion reading =
     (case reading of Some r \<Rightarrow> EMOTIONS (emotion r) | None \<Rightarrow> EMOTIONS ''neutral'')"

text \<open>\<^verbatim>\<open>const EmotionIcon = currentEmotion.icon\<close> throws on undefined.\<close>

definition EmotionIcon :: "SensorData option \<Rightarrow> error + string" where
  "EmotionIcon reading =
     (case currentEmotion reading of None \<Rightarrow> Inl TypeError | Some s \<Rightarrow> Inr (es_icon s))"

subsection \<open>Notions used to state the properties\<close>

text \<open>The label the reduction selects, as a total function of the triple.\<close>

definition selected :: "real \<Rightarrow> real \<Rightarrow> real \<Rightarrow> string \<times> real" where
  "selected hr ed tmp =
     (case scores hr ed tmp of x # xs \<Rightarrow> foldl pick_max x xs | [] \<Rightarrow> ([], 0))"

definition selected_fl :: "(real \<Rightarrow> real) \<Rightarrow> real \<Rightarrow> real \<Rightarrow> real \<Rightarrow> string \<times> real" where
  "selected_fl fl hr ed tmp =
     (case scores_fl fl hr ed tmp of x # xs \<Rightarrow> foldl pick_max x xs | [] \<Rightarrow> ([], 0))"

text \<open>The declared channel bounds.\<close>

definition in_bounds :: "SensorData \<Rightarrow> bool" where
  "in_bounds s =
     (50 \<le> heartRate s \<and> heartRate s \<le> 120 \<and> 2 \<le> eda s \<and> eda s \<le> 15 \<and>
      35.5 \<le> temperature s \<and> temperature s \<le> 38.5)"

definition labels :: "string list" where
  "labels = [''calm'', ''happy'', ''stressed'', ''focused'', ''neutral'']"

text \<open>The distinct elements of a list in the order of their first occurrence.\<close>

fun first_seen :: "'a list \<Rightarrow> 'a list" where
  "first_seen [] = []"
| "first_seen (x # xs) = x # removeAll x (first_seen xs)"

text \<open>
  Position \<open>i\<close> holds the last maximum of the entries \<open>ys\<close>: no entry has a larger
  value, and every later entry has a strictly smaller one.
\<close>

definition last_max_at :: "('k \<times> 'v::linorder) list \<Rightarrow> nat \<Rightarrow> bool" where
  "last_max_at ys i =
     (i < length ys \<and> (\<forall>j < length ys. snd (ys ! j) \<le> snd (ys ! i))
      \<and> (\<forall>j < length ys. i < j \<longrightarrow> snd (ys ! j) < snd (ys ! i)))"

text \<open>
  An emotion key for which none of the fallbacks of the lookups is taken: the table has an
  entry, and its display name and colour are not empty.
\<close>

definition known_emotion :: "string \<Rightarrow> bool" where
  "known_emotion e =
     (case EMOTIONS e of None \<Rightarrow> False | Some st \<Rightarrow> es_emotion st \<noteq> [] \<and> es_color st \<noteq> [])"

text \<open>
  A reading as the pipeline makes it: the result of one call of \<open>generateSensorData\<close>
  with draws in \<open>[0, 1)\<close>, its timestamp possibly overwritten (as the first effect does).
\<close>

definition produced :: "SensorData \<Rightarrow> bool" where
  "produced s =
     (\<exists>now prev rnd ts s'. valid_draws rnd \<and> generateSensorData now prev rnd = Inr s' \<and>
        s = s'\<lparr>timestamp := ts\<rparr>)"

text \<open>
  A concrete run used to instantiate the statements: every draw at the midpoint \<open>1/2\<close>,
  the clock standing at 1500000 ms during the first effect.
\<close>

definition midpoint :: Draws where
  "midpoint = \<lparr>r_heartRate = 1 / 2, r_eda = 1 / 2, r_temperature = 1 / 2, r_confidence = 1 / 2\<rparr>"

definition mounted_midpoint :: Dashboard where
  "mounted_midpoint =
     (case bootstrap 1500000 midpoint (\<lambda>i. 1500000) (\<lambda>i. midpoint) initialState of
        Inr st \<Rightarrow> st
      | Inl e \<Rightarrow> initialState)"

text \<open>Readings used to instantiate the statements about the history.\<close>

definition steady :: "nat \<Rightarrow> SensorData" where
  "steady i = \<lparr>timestamp = int i * 30000, heartRate = 72, eda = 6, temperature = 36.8,
     emotion = ''stressed'', confidence = 97\<rparr>"

definition calm_reading :: SensorData where
  "calm_reading = \<lparr>timestamp = 0, heartRate = 50, eda = 2, temperature = 38.5,
     emotion = ''calm'', confidence = 97\<rparr>"

definition neutral_reading :: SensorData where
  "neutral_reading = \<lparr>timestamp = 30000, heartRate = 70, eda = 5, temperature = 36.5,
     emotion = ''neutral'', confidence = 97\<rparr>"

subsection \<open>Basic facts about the classifier\<close>

lemma reduce_scores: "reduce pick_max (scores h e t) = Inr (selected h e t)"
  by (simp add: scores_def selected_def features_def)

lemma classifyEmotion_Inr:
  "classifyEmotion h e t r =
     Inr \<lparr>c_emotion = fst (selected h e t), c_confidence = min (94 + r * 6) 100\<rparr>"
  by (simp add: classifyEmotion_def reduce_scores)

lemma generateSensorData_Inr:
  "generateSensorData now prev rnd =
     Inr \<lparr>timestamp = now,
          heartRate = toFixed 1 (rawHeartRate prev rnd),
          eda = toFixed 2 (rawEda prev rnd),
          temperature = toFixed 1 (rawTemperature prev rnd),
          emotion = fst (selected (rawHeartRate prev rnd) (rawEda prev rnd) (rawTemperature prev rnd)),
          confidence = toFixed 1 (min (94 + r_confidence rnd * 6) 100)\<rparr>"
  by (simp add: generateSensorData_def classifyEmotion_Inr)

subsection \<open>The arg-max reduction\<close>

text \<open>
  Reducing with \<open>pick_max\<close> keeps the accumulator only when it is strictly larger, so the
  result is the last entry among those of maximal value.
\<close>

lemma foldl_pick_max_last_max:
  "\<exists>i. last_max_at (x # xs) i \<and> foldl pick_max x xs = (x # xs) ! i"
proof (induction xs rule: rev_induct)
  case Nil
  have "last_max_at [x] 0"
    by (simp add: last_max_at_def)
  then show ?case by auto
next
  case (snoc y xs)
  then obtain i where i: "last_max_at (x # xs) i" and f: "foldl pick_max x xs = (x # xs) ! i"
    by blast
  let ?ys = "x # xs"
  let ?zs = "x # xs @ [y]"
  have zs: "?zs = ?ys @ [y]" by simp
  have il: "i < length ?ys" using i by (simp add: last_max_at_def)
  have nth_old: "\<And>j. j < length ?ys \<Longrightarrow> ?zs ! j = ?ys ! j"
    unfolding zs by (simp only: nth_append if_True)
  have nth_new: "?zs ! length ?ys = y"
    unfolding zs by (simp only: nth_append_length)
  show ?case
  proof (cases "snd (?ys ! i) > snd y")
    case True
    have "foldl pick_max x (xs @ [y]) = ?ys ! i"
      using True f by (simp add: pick_max_def)
    then have r: "foldl pick_max x (xs @ [y]) = ?zs ! i"
      using nth_old [OF il] by simp
    have "last_max_at ?zs i"
      unfolding last_max_at_def
    proof (intro conjI allI impI)
      show "i < length ?zs" using il by simp
    next
      fix j assume "j < length ?zs"
      then consider "j < length ?ys" | "j = length ?ys" by force
      then show "snd (?zs ! j) \<le> snd (?zs ! i)"
      proof cases
        case 1
        then show ?thesis
          using i nth_old [OF 1] nth_old [OF il] by (simp add: last_max_at_def)
      next
        case 2
        then show ?thesis
          using True nth_new nth_old [OF il] by simp
      qed
    next
      fix j assume "j < length ?zs" and ij: "i < j"
      then consider "j < length ?ys" | "j = length ?ys" by force
      then show "snd (?zs ! j) < snd (?zs ! i)"
      proof cases
        case 1
        then show ?thesis
          using i ij nth_old [OF 1] nth_old [OF il] by (simp add: last_max_at_def)
      next
        case 2
        then show ?thesis
          using True nth_new nth_old [OF il] by simp
      qed
    qed
    with r show ?thesis by blast
  next
    case False
    have "foldl pick_max x (xs @ [y]) = y"
      using False f by (simp add: pick_max_def)
    then have r: "foldl pick_max x (xs @ [y]) = ?zs ! length ?ys"
      using nth_new by simp
    have "last_max_at ?zs (length ?ys)"
      unfolding last_max_at_def
    proof (intro conjI allI impI)
      show "length ?ys < length ?zs" by simp
    next
      fix j assume "j < length ?zs"
      then consider "j < length ?ys" | "j = length ?ys" by force
      then show "snd (?zs ! j) \<le> snd (?zs ! length ?ys)"
      proof cases
        case 1
        have "snd (?ys ! j) \<le> snd (?ys ! i)"
          using i 1 by (simp add: last_max_at_def)
        then show ?thesis
          using False nth_new nth_old [OF 1] by simp
      next
        case 2
        then show ?thesis by simp
      qed
    next
      fix j assume "j < length ?zs" and "length ?ys < j"
      then show "snd (?zs ! j) < snd (?zs ! length ?ys)" by simp
    qed
    with r show ?thesis by blast
  qed
qed

lemma foldl_pick_max_mem: "foldl pick_max x xs \<in> set (x # xs)"
  by (induction xs rule: rev_induct) (auto simp: pick_max_def)

lemma scores_labels: "map fst (scores hr ed tmp) = labels"
  by (simp add: scores_def features_def labels_def)

lemma selected_mem: "selected hr ed tmp \<in> set (scores hr ed tmp)"
proof -
  obtain x xs where ys: "scores hr ed tmp = x # xs"
    by (cases "scores hr ed tmp") (simp_all add: scores_def features_def)
  show ?thesis
    using foldl_pick_max_mem [of x xs] by (simp add: selected_def ys)
qed

lemma selected_label: "fst (selected hr ed tmp) \<in> set labels"
proof -
  have "fst (selected hr ed tmp) \<in> fst ` set (scores hr ed tmp)"
    using selected_mem by (rule imageI)
  then show ?thesis
    by (simp only: set_map [symmetric] scores_labels)
qed

lemma labels_known: "e \<in> set labels \<Longrightarrow> known_emotion e"
  by (auto simp: labels_def known_emotion_def EMOTIONS_def)

subsection \<open>Rounding\<close>

lemma toFixed_bounds:
  assumes "0 \<le> x" and "of_int a \<le> x * 10 ^ d" and "x * 10 ^ d \<le> of_int b"
  shows "of_int a / 10 ^ d \<le> toFixed d x \<and> toFixed d x \<le> of_int b / 10 ^ d"
proof -
  have lo: "a \<le> \<lfloor>x * 10 ^ d + 1 / 2\<rfloor>"
    using assms(2) by (simp add: le_floor_iff)
  have hi: "\<lfloor>x * 10 ^ d + 1 / 2\<rfloor> \<le> b"
    using assms(3) by (simp add: floor_le_iff)
  have eq: "toFixed d x = of_int \<lfloor>x * 10 ^ d + 1 / 2\<rfloor> / 10 ^ d"
    using assms(1) by (simp add: toFixed_def)
  have "(of_int a :: real) \<le> of_int \<lfloor>x * 10 ^ d + 1 / 2\<rfloor>"
    using lo by (simp only: of_int_le_iff)
  moreover have "(of_int \<lfloor>x * 10 ^ d + 1 / 2\<rfloor> :: real) \<le> of_int b"
    using hi by (simp only: of_int_le_iff)
  ultimately show ?thesis
    unfolding eq by (simp add: divide_right_mono)
qed

subsection \<open>The pipeline\<close>

text \<open>
  Both effects always succeed, and every reading they store or keep as the current one is the
  result of a call of \<open>generateSensorData\<close>. The first effect stores 50 readings.
\<close>

lemma generate_produced:
  assumes "valid_draws rnd" and "generateSensorData now prev rnd = Inr s"
  shows "produced (s\<lparr>timestamp := ts\<rparr>)"
  unfolding produced_def using assms by blast

lemma generate_total: "\<exists>s. generateSensorData now prev rnd = Inr s"
  by (simp add: generateSensorData_Inr)

lemma bootstrap_loop_inv:
  "(\<forall>k. valid_draws (rnd k)) \<Longrightarrow> produced lastReading \<Longrightarrow> list_all produced initialData \<Longrightarrow>
     i \<le> 50 \<Longrightarrow>
     \<exists>l d. bootstrap_loop i now rnd lastReading initialData = Inr (l, d)
       \<and> produced l \<and> list_all produced d \<and> length d = length initialData + (50 - i)"
proof (induction i now rnd lastReading initialData rule: bootstrap_loop.induct)
  case (1 i now rnd lastReading initialData)
  show ?case
  proof (cases "i < 50")
    case False
    then have "bootstrap_loop i now rnd lastReading initialData = Inr (lastReading, initialData)"
      by (subst bootstrap_loop.simps) simp
    with False "1.prems" show ?thesis
      by simp
  next
    case True
    obtain s where s: "generateSensorData (now i) (Some lastReading) (rnd i) = Inr s"
      using generate_total by blast
    define r where "r = s\<lparr>timestamp := now i - (50 - int i) * 30000\<rparr>"
    have p: "produced r"
      unfolding r_def using "1.prems"(1) s by (blast intro: generate_produced)
    have ps: "list_all produced (initialData @ [r])"
      using "1.prems"(3) p by simp
    have "\<exists>l d. bootstrap_loop (i + 1) now rnd r (initialData @ [r]) = Inr (l, d)
       \<and> produced l \<and> list_all produced d
       \<and> length d = length (initialData @ [r]) + (50 - (i + 1))"
      using True by (intro "1.IH" [OF True s r_def "1.prems"(1) p ps]) simp
    then obtain l d where ld: "bootstrap_loop (i + 1) now rnd r (initialData @ [r]) = Inr (l, d)"
      "produced l" "list_all produced d" "length d = length (initialData @ [r]) + (50 - (i + 1))"
      by blast
    have "bootstrap_loop i now rnd lastReading initialData = Inr (l, d)"
      by (subst bootstrap_loop.simps) (simp only: True if_True s sum.case Let_def r_def [symmetric] ld(1))
    moreover have "length d = length initialData + (50 - i)"
      using ld(4) True by simp
    ultimately show ?thesis
      using ld(2,3) by blast
  qed
qed

lemma seed_produced:
  assumes "valid_draws rnd" and "generateSensorData now prev rnd = Inr s"
  shows "produced s"
  using generate_produced [OF assms, of "timestamp s"] by simp

lemma bootstrap_inv:
  assumes "valid_draws rnd0" and "\<forall>k. valid_draws (rnd k)"
  shows "\<exists>l d. bootstrap now0 rnd0 now rnd st = Inr (st\<lparr>sensorData := d, currentReading := Some l\<rparr>)
     \<and> produced l \<and> list_all produced d \<and> length d = 50"
proof -
  obtain seed where seed: "generateSensorData now0 None rnd0 = Inr seed"
    using generate_total by blast
  have p: "produced seed"
    using assms(1) seed by (rule seed_produced)
  obtain l d where ld: "bootstrap_loop 0 now rnd seed [] = Inr (l, d)"
    "produced l" "list_all produced d" "length d = length ([] :: SensorData list) + (50 - 0)"
    using bootstrap_loop_inv [OF assms(2) p, of "[]" 0 now] by auto
  have "bootstrap now0 rnd0 now rnd st = Inr (st\<lparr>sensorData := d, currentReading := Some l\<rparr>)"
    by (simp add: bootstrap_def seed ld(1))
  then show ?thesis
    using ld(2,3,4) by auto
qed

lemma slice_last_subset: "set (slice_last n xs) \<subseteq> set xs"
  unfolding slice_last_def by (rule set_drop_subset)

lemma append_reading_all:
  assumes "list_all P prev" and "P newReading"
  shows "list_all P (append_reading prev newReading)"
  using assms slice_last_subset [of 100 prev]
  by (auto simp: append_reading_def list_all_iff)

lemma reachable_produced:
  "reachable st \<Longrightarrow>
     list_all produced (sensorData st) \<and> (\<exists>l. currentReading st = Some l \<and> produced l)"
proof (induction rule: reachable.induct)
  case (mounted rnd0 rnd now0 now st)
  obtain l d where "bootstrap now0 rnd0 now rnd initialState =
      Inr (initialState\<lparr>sensorData := d, currentReading := Some l\<rparr>)"
    and "produced l" and "list_all produced d"
    using bootstrap_inv [of rnd0 rnd now0 now initialState] mounted(1,2) by blast
  with mounted(3) show ?case by auto
next
  case (toggled st)
  then show ?case by simp
next
  case (ticked st rnd now st')
  obtain s where s: "generateSensorData now (currentReading st) rnd = Inr s"
    using generate_total by blast
  have p: "produced s"
    using ticked(3) s by (rule seed_produced)
  have st': "st' = st\<lparr>sensorData := append_reading (sensorData st) s,
      currentReading := Some s, batteryLevel := max 0 (batteryLevel st - 0.1)\<rparr>"
    using ticked(4) by (simp add: tick_def s)
  show ?case
    using ticked.IH p by (simp add: st' append_reading_all)
qed

subsection \<open>Channel bounds\<close>

lemma raw_bounds:
  "50 \<le> rawHeartRate prev rnd \<and> rawHeartRate prev rnd \<le> 120
   \<and> 2 \<le> rawEda prev rnd \<and> rawEda prev rnd \<le> 15
   \<and> 35.5 \<le> rawTemperature prev rnd \<and> rawTemperature prev rnd \<le> 38.5"
proof -
  have clamp: "lo \<le> max lo (min hi x) \<and> max lo (min hi x) \<le> hi" if "lo \<le> hi"
    for lo hi x :: real
    using that by (simp add: max_def min_def)
  show ?thesis
    unfolding rawHeartRate_def rawEda_def rawTemperature_def
    by (intro conjI; rule clamp [THEN conjunct1] clamp [THEN conjunct2]; simp)
qed

lemma generate_in_bounds:
  assumes "generateSensorData now prev rnd = Inr s"
  shows "in_bounds s"
proof -
  note rb = raw_bounds [of prev rnd]
  have h: "of_int 500 / 10 ^ 1 \<le> toFixed 1 (rawHeartRate prev rnd)
      \<and> toFixed 1 (rawHeartRate prev rnd) \<le> of_int 1200 / 10 ^ 1"
    by (rule toFixed_bounds) (use rb in simp_all)
  have e: "of_int 200 / 10 ^ 2 \<le> toFixed 2 (rawEda prev rnd)
      \<and> toFixed 2 (rawEda prev rnd) \<le> of_int 1500 / 10 ^ 2"
    by (rule toFixed_bounds) (use rb in simp_all)
  have t: "of_int 355 / 10 ^ 1 \<le> toFixed 1 (rawTemperature prev rnd)
      \<and> toFixed 1 (rawTemperature prev rnd) \<le> of_int 385 / 10 ^ 1"
    by (rule toFixed_bounds) (use rb in simp_all)
  have s: "s = \<lparr>timestamp = now,
          heartRate = toFixed 1 (rawHeartRate prev rnd),
          eda = toFixed 2 (rawEda prev rnd),
          temperature = toFixed 1 (rawTemperature prev rnd),
          emotion = fst (selected (rawHeartRate prev rnd) (rawEda prev rnd) (rawTemperature prev rnd)),
          confidence = toFixed 1 (min (94 + r_confidence rnd * 6) 100)\<rparr>"
    using assms by (simp add: generateSensorData_Inr)
  show ?thesis
    using h e t by (simp add: s in_bounds_def)
qed

lemma produced_in_bounds: "produced s \<Longrightarrow> in_bounds s"
  unfolding produced_def using generate_in_bounds by (auto simp: in_bounds_def)

subsection \<open>A concrete reachable state\<close>

lemma valid_midpoint: "valid_draws midpoint"
  by (simp add: valid_draws_def valid_draw_def midpoint_def)

lemma bootstrap_midpoint:
  "bootstrap 1500000 midpoint (\<lambda>i. 1500000) (\<lambda>i. midpoint) initialState = Inr mounted_midpoint"
proof -
  obtain l d where "bootstrap 1500000 midpoint (\<lambda>i. 1500000) (\<lambda>i. midpoint) initialState =
      Inr (initialState\<lparr>sensorData := d, currentReading := Some l\<rparr>)"
    using bootstrap_inv [of midpoint "\<lambda>i. midpoint"] valid_midpoint by blast
  then show ?thesis
    by (simp add: mounted_midpoint_def)
qed

lemma reachable_mounted_midpoint: "reachable mounted_midpoint"
proof (rule mounted)
  show "valid_draws midpoint"
    by (rule valid_midpoint)
  show "valid_draws ((\<lambda>i. midpoint) i)" for i :: nat
    by (simp add: valid_midpoint)
  show "bootstrap 1500000 midpoint (\<lambda>i. 1500000) (\<lambda>i. midpoint) initialState
      = Inr mounted_midpoint"
    by (rule bootstrap_midpoint)
qed

lemma list_all_mono: "list_all P xs \<Longrightarrow> (\<And>x. P x \<Longrightarrow> Q x) \<Longrightarrow> list_all Q xs"
  by (auto simp: list_all_iff)

lemma produced_known: "produced s \<Longrightarrow> known_emotion (emotion s)"
  unfolding produced_def
  by (auto simp: generateSensorData_Inr intro!: labels_known selected_label)

subsection \<open>The history\<close>

lemma append_reading_length: "length (append_reading h s) = min (length h) 100 + 1"
  by (simp add: append_reading_def slice_last_def)

lemma append_reading_short: "length h \<le> 100 \<Longrightarrow> append_reading h s = h @ [s]"
  by (simp add: append_reading_def slice_last_def)

lemma foldl_append_reading_short:
  "length xs \<le> 101 \<Longrightarrow> foldl append_reading [] xs = xs"
  by (induction xs rule: rev_induct) (simp_all add: append_reading_short)

lemma mounted_midpoint_shape:
  "isTracking mounted_midpoint = False \<and> length (sensorData mounted_midpoint) = 50"
proof -
  obtain l d where "bootstrap 1500000 midpoint (\<lambda>i. 1500000) (\<lambda>i. midpoint) initialState =
      Inr (initialState\<lparr>sensorData := d, currentReading := Some l\<rparr>)" and "length d = 50"
    using bootstrap_inv [of midpoint "\<lambda>i. midpoint"] valid_midpoint by blast
  then have m: "mounted_midpoint = initialState\<lparr>sensorData := d, currentReading := Some l\<rparr>"
    and d: "length d = 50"
    by (simp_all only: bootstrap_midpoint sum.inject)
  show ?thesis
    unfolding m by (simp add: initialState_def d)
qed

lemma reachable_length:
  "\<exists>st. reachable st \<and> isTracking st \<and> length (sensorData st) = min (50 + n) 101"
proof (induction n)
  case 0
  let ?st = "mounted_midpoint\<lparr>isTracking := \<not> isTracking mounted_midpoint\<rparr>"
  have "reachable ?st"
    using reachable_mounted_midpoint by (rule toggled)
  moreover have "isTracking ?st \<and> length (sensorData ?st) = min (50 + 0) 101"
    using mounted_midpoint_shape by simp
  ultimately show ?case by blast
next
  case (Suc n)
  then obtain st where st: "reachable st" "isTracking st"
    "length (sensorData st) = min (50 + n) 101"
    by blast
  obtain s where s: "generateSensorData 0 (currentReading st) midpoint = Inr s"
    using generate_total by blast
  let ?st' = "st\<lparr>sensorData := append_reading (sensorData st) s,
      currentReading := Some s, batteryLevel := max 0 (batteryLevel st - 0.1)\<rparr>"
  have t: "tick 0 midpoint st = Inr ?st'"
    by (simp add: tick_def s)
  have "reachable ?st'"
    using st(1,2) valid_midpoint t by (rule ticked)
  moreover have "isTracking ?st'"
    using st(2) by simp
  moreover have "length (sensorData ?st') = min (50 + Suc n) 101"
    using st(3) by (simp add: append_reading_length)
  ultimately show ?case by blast
qed

subsection \<open>Emotion counts\<close>

text \<open>
  The counts object lists the emotions in the order of their first occurrence in the history,
  each with its number of occurrences.
\<close>

lemma key_present: "(k, n) \<in> set acc \<Longrightarrow> k \<in> fst ` set acc"
  by force

lemma increment_new: "k \<notin> fst ` set acc \<Longrightarrow> increment acc k = acc @ [(k, 1)]"
  by (induction acc) auto

lemma increment_known:
  "distinct (map fst acc) \<Longrightarrow> k \<in> fst ` set acc \<Longrightarrow>
     increment acc k = map (\<lambda>(k', n). (k', if k' = k then n + 1 else n)) acc"
proof (induction acc)
  case Nil
  then show ?case by simp
next
  case (Cons a acc)
  obtain k' n where a: "a = (k', n)" by (cases a)
  show ?case
  proof (cases "k' = k")
    case True
    then have "k \<notin> fst ` set acc"
      using Cons.prems(1) a by auto
    then have "map (\<lambda>(k', n). (k', if k' = k then n + 1 else n)) acc = acc"
      by (induction acc) auto
    then show ?thesis
      using True a by simp
  next
    case False
    then have "k \<in> fst ` set acc"
      using Cons.prems(2) a by auto
    then show ?thesis
      using False a Cons.IH Cons.prems(1) by simp
  qed
qed

lemma increment_keys:
  "map fst (increment acc k) = (if k \<in> fst ` set acc then map fst acc else map fst acc @ [k])"
  by (induction acc) (auto dest: key_present)

lemma foldl_increment:
  "distinct (map fst acc) \<Longrightarrow>
     foldl (\<lambda>acc data. increment acc (emotion data)) acc h =
       map (\<lambda>(k, n). (k, n + count_list (map emotion h) k)) acc
       @ map (\<lambda>k. (k, count_list (map emotion h) k))
           (filter (\<lambda>k. k \<notin> fst ` set acc) (first_seen (map emotion h)))"
proof (induction h arbitrary: acc)
  case Nil
  then show ?case by simp
next
  case (Cons d h)
  let ?k = "emotion d"
  let ?c = "\<lambda>k. count_list (map emotion h) k"
  let ?c' = "\<lambda>k. count_list (map emotion (d # h)) k"
  let ?fs = "first_seen (map emotion h)"
  have c': "?c' k = (if k = ?k then ?c k + 1 else ?c k)" for k
    by auto
  have dist: "distinct (map fst (increment acc ?k))"
    using Cons.prems by (auto simp: increment_keys)
  note IH = Cons.IH [OF dist]
  show ?case
  proof (cases "?k \<in> fst ` set acc")
    case True
    have inc: "increment acc ?k = map (\<lambda>(k', n). (k', if k' = ?k then n + 1 else n)) acc"
      using Cons.prems True by (rule increment_known)
    have keys: "fst ` set (increment acc ?k) = fst ` set acc"
      using True increment_keys [of acc ?k] by (metis set_map)
    have 1: "map (\<lambda>(k, n). (k, n + ?c k)) (increment acc ?k) = map (\<lambda>(k, n). (k, n + ?c' k)) acc"
      unfolding inc by (auto simp: c')
    have 2: "filter (\<lambda>k. k \<notin> fst ` set acc) (first_seen (map emotion (d # h)))
        = filter (\<lambda>k. k \<notin> fst ` set acc) ?fs"
      using True by (auto simp: removeAll_filter_not_eq intro: filter_cong)
    have 3: "map (\<lambda>k. (k, ?c' k)) (filter (\<lambda>k. k \<notin> fst ` set acc) ?fs)
        = map (\<lambda>k. (k, ?c k)) (filter (\<lambda>k. k \<notin> fst ` set acc) ?fs)"
      using True by (auto simp: c')
    show ?thesis
      using IH by (simp only: foldl_Cons keys 1 2 3)
  next
    case False
    have inc: "increment acc ?k = acc @ [(?k, 1)]"
      using False by (rule increment_new)
    have 1: "map (\<lambda>(k, n). (k, n + ?c k)) acc = map (\<lambda>(k, n). (k, n + ?c' k)) acc"
      using False by (auto simp: c' dest: key_present)
    have 2: "filter (\<lambda>k. k \<notin> fst ` set acc) (first_seen (map emotion (d # h)))
        = ?k # filter (\<lambda>k. k \<notin> fst ` set (acc @ [(?k, 1)])) ?fs"
      using False by (auto simp: removeAll_filter_not_eq intro: filter_cong)
    have 3: "map (\<lambda>k. (k, ?c' k)) (filter (\<lambda>k. k \<notin> fst ` set (acc @ [(?k, 1)])) ?fs)
        = map (\<lambda>k. (k, ?c k)) (filter (\<lambda>k. k \<notin> fst ` set (acc @ [(?k, 1)])) ?fs)"
      by (auto simp: c')
    have "foldl (\<lambda>acc data. increment acc (emotion data)) acc (d # h) =
       map (\<lambda>(k, n). (k, n + ?c k)) (acc @ [(?k, 1)])
       @ map (\<lambda>k. (k, ?c k)) (filter (\<lambda>k. k \<notin> fst ` set (acc @ [(?k, 1)])) ?fs)"
      using IH by (simp only: foldl_Cons inc)
    also have "\<dots> = map (\<lambda>(k, n). (k, n + ?c' k)) acc
       @ map (\<lambda>k. (k, ?c' k)) (?k # filter (\<lambda>k. k \<notin> fst ` set (acc @ [(?k, 1)])) ?fs)"
      unfolding 3 [symmetric] 1 [symmetric] by simp
    finally show ?thesis
      by (simp only: 2)
  qed
qed

lemma emotionCounts_eq:
  "emotionCounts h = map (\<lambda>k. (k, count_list (map emotion h) k)) (first_seen (map emotion h))"
  using foldl_increment [of "[]" h] by (simp add: emotionCounts_def)


lemma first_seen_empty: "first_seen xs = [] \<longleftrightarrow> xs = []"
  by (cases xs) simp_all

subsection \<open>Binary64 rounding\<close>

text \<open>
  \<open>expo x\<close> is the exponent of the binade of \<open>x\<close>. Rounding does not cross a number of
  the grid of spacing \<open>pow2 j\<close> as long as the argument is below \<open>pow2 (j + 53)\<close>, and it
  moves the argument by at most half a unit in the last place.
\<close>

lemma pow2_powr: "pow2 e = 2 powr (of_int e)"
proof (cases "0 \<le> e")
  case True
  then show ?thesis
    by (simp add: pow2_def powr_realpow [symmetric])
next
  case False
  then have "2 powr (of_int e) = 1 / (2::real) powr (of_int (- e))"
    by (simp add: powr_minus_divide)
  also have "\<dots> = 1 / 2 ^ nat (- e)"
    using False by (simp add: powr_realpow [symmetric])
  finally show ?thesis
    using False by (simp add: pow2_def)
qed

lemma pow2_pos: "0 < pow2 e"
  by (simp add: pow2_powr)

lemma pow2_add: "pow2 (a + b) = pow2 a * pow2 b"
  by (simp add: pow2_powr powr_add)

lemma pow2_less: "pow2 a < pow2 b \<longleftrightarrow> a < b"
  by (simp add: pow2_powr)

lemma pow2_le: "pow2 a \<le> pow2 b \<longleftrightarrow> a \<le> b"
  by (simp add: pow2_powr)

lemma pow2_nat: "0 \<le> e \<Longrightarrow> pow2 e = of_int (2 ^ nat e)"
  by (simp add: pow2_def)

lemma expo_bounds: "x \<noteq> 0 \<Longrightarrow> pow2 (expo x) \<le> \<bar>x\<bar> \<and> \<bar>x\<bar> < pow2 (expo x + 1)"
proof (induction x rule: expo.induct)
  case (1 x)
  consider "2 \<le> \<bar>x\<bar>" | "\<bar>x\<bar> < 1" | "1 \<le> \<bar>x\<bar>" "\<bar>x\<bar> < 2"
    by linarith
  then show ?case
  proof cases
    case 1
    then have e: "expo x = expo (x / 2) + 1"
      using "1.prems" by (subst expo.simps) simp
    have "pow2 (expo (x / 2)) \<le> \<bar>x / 2\<bar> \<and> \<bar>x / 2\<bar> < pow2 (expo (x / 2) + 1)"
      using "1.IH"(1) "1.prems" 1 by simp
    then show ?thesis
      unfolding e pow2_add [of _ 1] by (simp add: pow2_def)
  next
    case 2
    then have e: "expo x = expo (x * 2) - 1"
      using "1.prems" by (subst expo.simps) simp
    have "pow2 (expo (x * 2)) \<le> \<bar>x * 2\<bar> \<and> \<bar>x * 2\<bar> < pow2 (expo (x * 2) + 1)"
      using "1.IH"(2) "1.prems" 2 by simp
    then have "pow2 (expo x + 1) \<le> \<bar>x\<bar> * 2 \<and> \<bar>x\<bar> * 2 < pow2 (expo x + 1 + 1)"
      unfolding e by (simp add: abs_mult)
    then show ?thesis
      unfolding pow2_add [of _ 1] by (simp add: pow2_def)
  next
    case 3
    then have e: "expo x = 0"
      using "1.prems" by (subst expo.simps) simp
    show ?thesis
      unfolding e using 3 by (simp add: pow2_def)
  qed
qed

lemma expo_unique:
  assumes "pow2 e \<le> \<bar>x\<bar>" and "\<bar>x\<bar> < pow2 (e + 1)"
  shows "expo x = e"
proof -
  have "x \<noteq> 0"
    using assms(1) pow2_pos [of e] by auto
  then have b: "pow2 (expo x) \<le> \<bar>x\<bar>" "\<bar>x\<bar> < pow2 (expo x + 1)"
    using expo_bounds by blast+
  have "pow2 (expo x) < pow2 (e + 1)"
    using b(1) assms(2) by linarith
  moreover have "pow2 e < pow2 (expo x + 1)"
    using b(2) assms(1) by linarith
  ultimately show ?thesis
    by (simp add: pow2_less)
qed

lemma expo_less:
  assumes "x \<noteq> 0" and "\<bar>x\<bar> < pow2 k"
  shows "expo x < k"
proof -
  have "pow2 (expo x) < pow2 k"
    using expo_bounds [OF assms(1)] assms(2) by linarith
  then show ?thesis
    by (simp add: pow2_less)
qed

lemma round_even_eq: "\<bar>y - of_int m\<bar> < 1 / 2 \<Longrightarrow> round_even y = m"
proof -
  assume a: "\<bar>y - of_int m\<bar> < 1 / 2"
  show ?thesis
  proof (cases "of_int m \<le> y")
    case True
    then have "\<lfloor>y\<rfloor> = m"
      using a by linarith
    then show ?thesis
      using a True by (simp add: round_even_def Let_def)
  next
    case False
    then have f: "\<lfloor>y\<rfloor> = m - 1"
      using a by linarith
    have "1 / 2 < y - of_int (m - 1)"
      using a False by simp
    then show ?thesis
      using f by (simp add: round_even_def Let_def)
  qed
qed

lemma round_even_cases: "round_even y = \<lfloor>y\<rfloor> \<or> round_even y = \<lfloor>y\<rfloor> + 1"
  by (simp add: round_even_def Let_def)

lemma round_even_le: "y \<le> of_int n \<Longrightarrow> round_even y \<le> n"
proof -
  assume a: "y \<le> of_int n"
  show ?thesis
  proof (cases "y = of_int n")
    case True
    then show ?thesis
      by (simp add: round_even_def)
  next
    case False
    then have "\<lfloor>y\<rfloor> < n"
      using a by (simp add: floor_less_iff)
    then show ?thesis
      using round_even_cases [of y] by linarith
  qed
qed

lemma round_even_ge: "of_int n \<le> y \<Longrightarrow> n \<le> round_even y"
proof -
  assume "of_int n \<le> y"
  then have "n \<le> \<lfloor>y\<rfloor>"
    by (simp add: le_floor_iff)
  then show ?thesis
    using round_even_cases [of y] by linarith
qed

lemma round_even_error: "\<bar>of_int (round_even y) - y\<bar> \<le> 1 / 2"
proof -
  have "of_int \<lfloor>y\<rfloor> \<le> y" "y < of_int \<lfloor>y\<rfloor> + 1"
    by linarith+
  then show ?thesis
    by (auto simp add: round_even_def Let_def)
qed

lemma binary64_zero: "binary64 0 = 0"
  by (simp add: binary64_def)

lemma binary64_eq:
  assumes "pow2 e \<le> \<bar>x\<bar>" and "\<bar>x\<bar> < pow2 (e + 1)"
    and "\<bar>x / pow2 (e - 52) - of_int m\<bar> < 1 / 2"
  shows "binary64 x = of_int m * pow2 (e - 52)"
proof -
  have "x \<noteq> 0"
    using assms(1) pow2_pos [of e] by auto
  moreover have "expo x = e"
    using assms(1,2) by (rule expo_unique)
  moreover have "round_even (x / pow2 (e - 52)) = m"
    using assms(3) by (rule round_even_eq)
  ultimately show ?thesis
    by (simp add: binary64_def)
qed

lemma grid_multiple:
  assumes "x \<noteq> 0" and "\<bar>x\<bar> < pow2 (j + 53)"
  shows "\<exists>k. of_int n * pow2 j = of_int k * pow2 (expo x - 52)"
proof -
  have "expo x < j + 53"
    using assms by (rule expo_less)
  then have d: "0 \<le> j - (expo x - 52)"
    by simp
  have "pow2 j = pow2 (j - (expo x - 52)) * pow2 (expo x - 52)"
    by (simp add: pow2_add [symmetric])
  also have "\<dots> = of_int (2 ^ nat (j - (expo x - 52))) * pow2 (expo x - 52)"
    using d by (simp only: pow2_nat)
  finally have "of_int n * pow2 j
      = of_int (n * 2 ^ nat (j - (expo x - 52))) * pow2 (expo x - 52)"
    by simp
  then show ?thesis
    by blast
qed

lemma binary64_upper:
  assumes "x \<le> of_int n * pow2 j" and "\<bar>x\<bar> < pow2 (j + 53)"
  shows "binary64 x \<le> of_int n * pow2 j"
proof (cases "x = 0")
  case True
  with assms(1) show ?thesis
    by (simp add: binary64_zero)
next
  case False
  let ?u = "pow2 (expo x - 52)"
  obtain k where k: "of_int n * pow2 j = of_int k * ?u"
    using grid_multiple [OF False assms(2)] by blast
  have u: "0 < ?u"
    by (rule pow2_pos)
  have "x / ?u \<le> of_int k"
    using assms(1) u unfolding k by (simp add: pos_divide_le_eq)
  then have "round_even (x / ?u) \<le> k"
    by (rule round_even_le)
  then have "of_int (round_even (x / ?u)) * ?u \<le> of_int k * ?u"
    using u by simp
  then show ?thesis
    using False by (simp add: binary64_def k)
qed

lemma binary64_lower:
  assumes "of_int n * pow2 j \<le> x" and "\<bar>x\<bar> < pow2 (j + 53)"
  shows "of_int n * pow2 j \<le> binary64 x"
proof (cases "x = 0")
  case True
  with assms(1) show ?thesis
    by (simp add: binary64_zero)
next
  case False
  let ?u = "pow2 (expo x - 52)"
  obtain k where k: "of_int n * pow2 j = of_int k * ?u"
    using grid_multiple [OF False assms(2)] by blast
  have u: "0 < ?u"
    by (rule pow2_pos)
  have "of_int k \<le> x / ?u"
    using assms(1) u unfolding k by (simp add: pos_le_divide_eq)
  then have "k \<le> round_even (x / ?u)"
    by (rule round_even_ge)
  then have "of_int k * ?u \<le> of_int (round_even (x / ?u)) * ?u"
    using u by simp
  then show ?thesis
    using False by (simp add: binary64_def k)
qed

lemma binary64_error:
  assumes "\<bar>x\<bar> < pow2 (j + 53)"
  shows "\<bar>binary64 x - x\<bar> \<le> pow2 j / 2"
proof (cases "x = 0")
  case True
  then show ?thesis
    using pow2_pos [of j] by (simp add: binary64_zero)
next
  case False
  let ?u = "pow2 (expo x - 52)"
  have u: "0 < ?u"
    by (rule pow2_pos)
  have "expo x < j + 53"
    using False assms by (rule expo_less)
  then have uj: "?u \<le> pow2 j"
    by (simp add: pow2_le)
  have "binary64 x - x = (of_int (round_even (x / ?u)) - x / ?u) * ?u"
    using False u by (simp add: binary64_def left_diff_distrib)
  then have "\<bar>binary64 x - x\<bar> = \<bar>of_int (round_even (x / ?u)) - x / ?u\<bar> * ?u"
    using u by (simp add: abs_mult)
  also have "\<dots> \<le> 1 / 2 * ?u"
    using round_even_error [of "x / ?u"] u by (intro mult_right_mono) simp_all
  also have "\<dots> \<le> pow2 j / 2"
    using uj by simp
  finally show ?thesis .
qed

lemma round_even_tie:
  assumes "\<bar>y - of_int m\<bar> = 1 / 2" and "even m"
  shows "round_even y = m"
proof (cases "of_int m \<le> y")
  case True
  then have y: "y = of_int m + 1 / 2"
    using assms(1) by linarith
  then have "\<lfloor>y\<rfloor> = m"
    by linarith
  then show ?thesis
    using y assms(2) by (simp add: round_even_def Let_def)
next
  case False
  then have y: "y = of_int (m - 1) + 1 / 2"
    using assms(1) by simp
  then have f: "\<lfloor>y\<rfloor> = m - 1"
    by linarith
  have "odd (m - 1)"
    using assms(2) by simp
  then show ?thesis
    using y f by (simp add: round_even_def Let_def)
qed

lemma binary64_tie:
  assumes "pow2 e \<le> \<bar>x\<bar>" and "\<bar>x\<bar> < pow2 (e + 1)"
    and "\<bar>x / pow2 (e - 52) - of_int m\<bar> = 1 / 2" and "even m"
  shows "binary64 x = of_int m * pow2 (e - 52)"
proof -
  have "x \<noteq> 0"
    using assms(1) pow2_pos [of e] by auto
  moreover have "expo x = e"
    using assms(1,2) by (rule expo_unique)
  moreover have "round_even (x / pow2 (e - 52)) = m"
    using assms(3,4) by (rule round_even_tie)
  ultimately show ?thesis
    by (simp add: binary64_def)
qed

subsection \<open>Rounded arithmetic: basic facts\<close>

text \<open>With the identity as rounding the definitions are the exact ones.\<close>

lemma exact_features: "features_fl (\<lambda>x. x) hr ed tmp = features hr ed tmp"
  by (simp add: features_fl_def features_def)

lemma exact_scores: "scores_fl (\<lambda>x. x) hr ed tmp = scores hr ed tmp"
  by (simp add: scores_fl_def scores_def exact_features)

lemma exact_classifyEmotion: "classifyEmotion_fl (\<lambda>x. x) hr ed tmp r = classifyEmotion hr ed tmp r"
  by (simp add: classifyEmotion_fl_def classifyEmotion_def exact_scores)

lemma exact_raw:
  "rawHeartRate_fl (\<lambda>x. x) prev rnd = rawHeartRate prev rnd"
  "rawEda_fl (\<lambda>x. x) prev rnd = rawEda prev rnd"
  "rawTemperature_fl (\<lambda>x. x) prev rnd = rawTemperature prev rnd"
  by (simp_all add: rawHeartRate_fl_def rawHeartRate_def rawEda_fl_def rawEda_def
      rawTemperature_fl_def rawTemperature_def)

lemma exact_generateSensorData:
  "generateSensorData_fl (\<lambda>x. x) now prev rnd = generateSensorData now prev rnd"
  unfolding generateSensorData_fl_def generateSensorData_def exact_classifyEmotion exact_raw
  by (rule refl)

lemma scores_fl_labels: "map fst (scores_fl fl hr ed tmp) = labels"
  by (simp add: scores_fl_def features_fl_def labels_def)

lemma reduce_scores_fl: "reduce pick_max (scores_fl fl hr ed tmp) = Inr (selected_fl fl hr ed tmp)"
  by (simp add: scores_fl_def selected_fl_def features_fl_def)

lemma classifyEmotion_fl_Inr:
  "classifyEmotion_fl fl hr ed tmp r =
     Inr \<lparr>c_emotion = fst (selected_fl fl hr ed tmp),
          c_confidence = min (fl (94 + fl (r * 6))) 100\<rparr>"
  by (simp add: classifyEmotion_fl_def reduce_scores_fl)

lemma generateSensorData_fl_Inr:
  "generateSensorData_fl fl now prev rnd =
     Inr \<lparr>timestamp = now,
          heartRate = fl (toFixed 1 (rawHeartRate_fl fl prev rnd)),
          eda = fl (toFixed 2 (rawEda_fl fl prev rnd)),
          temperature = fl (toFixed 1 (rawTemperature_fl fl prev rnd)),
          emotion = fst (selected_fl fl (rawHeartRate_fl fl prev rnd) (rawEda_fl fl prev rnd)
                      (rawTemperature_fl fl prev rnd)),
          confidence = fl (toFixed 1 (min (fl (94 + fl (r_confidence rnd * 6))) 100))\<rparr>"
  by (simp add: generateSensorData_fl_def classifyEmotion_fl_Inr)

lemma selected_fl_last_max:
  "\<exists>i. last_max_at (scores_fl fl hr ed tmp) i
     \<and> selected_fl fl hr ed tmp = scores_fl fl hr ed tmp ! i"
proof -
  obtain x xs where ys: "scores_fl fl hr ed tmp = x # xs"
    by (cases "scores_fl fl hr ed tmp") (simp_all add: scores_fl_def features_fl_def)
  show ?thesis
    using foldl_pick_max_last_max [of x xs] by (simp add: selected_fl_def ys)
qed

subsection \<open>Roundings of the numbers that occur in the instances\<close>

lemma binary64_values:
  shows "binary64 (- (2305843009213695 / 288230376151711744)) = of_int (- 4611686018427390) * pow2 ((- 7) - 52)"
    and "binary64 (- (360287970189639 / 36028797018963968)) = of_int (- 5764607523034224) * pow2 ((- 7) - 52)"
    and "binary64 (- (720575940379279 / 72057594037927936)) = of_int (- 5764607523034232) * pow2 ((- 7) - 52)"
    and "binary64 (12980742146337070512478121581609 / 1298074214633706907132624082305024) = of_int 5764607523034236 * pow2 ((- 7) - 52)"
    and "binary64 (31153781151208965266779819709825 / 2596148429267413814265248164610048) = of_int 6917529027641082 * pow2 ((- 7) - 52)"
    and "binary64 (76059036013693047735986463703 / 5070602400912917605986812821504) = of_int 8646911284551271 * pow2 ((- 7) - 52)"
    and "binary64 (20769187434139312099389054151295 / 1298074214633706907132624082305024) = of_int 4611686018427388 * pow2 ((- 6) - 52)"
    and "binary64 (- (5764607523034235 / 288230376151711744)) = of_int (- 5764607523034235) * pow2 ((- 6) - 52)"
    and "binary64 (12980742146337070512478121581609 / 649037107316853453566312041152512) = of_int 5764607523034236 * pow2 ((- 6) - 52)"
    and "binary64 (- (5764607523034317 / 288230376151711744)) = of_int (- 5764607523034317) * pow2 ((- 6) - 52)"
    and "binary64 (3746994889972253 / 144115188075855872) = of_int 7493989779944506 * pow2 ((- 6) - 52)"
    and "binary64 (76059036013693047735986463703 / 2535301200456458802993406410752) = of_int 8646911284551271 * pow2 ((- 6) - 52)"
    and "binary64 (- (1080863910568919 / 36028797018963968)) = of_int (- 8646911284551352) * pow2 ((- 6) - 52)"
    and "binary64 (19471113219505603967277331424215 / 649037107316853453566312041152512) = of_int 8646911284551352 * pow2 ((- 6) - 52)"
    and "binary64 (20769187434139312099389054151295 / 649037107316853453566312041152512) = of_int 4611686018427388 * pow2 ((- 5) - 52)"
    and "binary64 (1 / 25) = of_int 5764607523034235 * pow2 ((- 5) - 52)"
    and "binary64 (23634890844440283 / 576460752303423488) = of_int 5908722711110071 * pow2 ((- 5) - 52)"
    and "binary64 (3602879701896397 / 72057594037927936) = of_int 7205759403792794 * pow2 ((- 5) - 52)"
    and "binary64 (76059036013693047735986463703 / 1267650600228229401496703205376) = of_int 8646911284551271 * pow2 ((- 5) - 52)"
    and "binary64 (- (1080863910568919 / 18014398509481984)) = of_int (- 8646911284551352) * pow2 ((- 5) - 52)"
    and "binary64 (19471113219505603967277331424215 / 324518553658426726783156020576256) = of_int 8646911284551352 * pow2 ((- 5) - 52)"
    and "binary64 (5044031582654955 / 72057594037927936) = of_int 5044031582654955 * pow2 ((- 4) - 52)"
    and "binary64 (1261007895663739 / 18014398509481984) = of_int 5044031582654956 * pow2 ((- 4) - 52)"
    and "binary64 (44387477927363689 / 576460752303423488) = of_int 5548434740920461 * pow2 ((- 4) - 52)"
    and "binary64 (- (29206669829258403248756220714025 / 324518553658426726783156020576256)) = of_int (- 6485183463413514) * pow2 ((- 4) - 52)"
    and "binary64 (3314649325744685 / 36028797018963968) = of_int 6629298651489370 * pow2 ((- 4) - 52)"
    and "binary64 (1 / 10) = of_int 7205759403792794 * pow2 ((- 4) - 52)"
    and "binary64 (3602879701896397 / 36028797018963968) = of_int 7205759403792794 * pow2 ((- 4) - 52)"
    and "binary64 (1080863910568919 / 9007199254740992) = of_int 8646911284551352 * pow2 ((- 4) - 52)"
    and "binary64 (- (19471113219505603967277331424215 / 162259276829213363391578010288128)) = of_int (- 8646911284551352) * pow2 ((- 4) - 52)"
    and "binary64 (19471113219505603967277331424215 / 162259276829213363391578010288128) = of_int 8646911284551352 * pow2 ((- 4) - 52)"
    and "binary64 (- (20176126330619823 / 144115188075855872)) = of_int (- 5044031582654956) * pow2 ((- 3) - 52)"
    and "binary64 (21110623253299 / 140737488355328) = of_int 5404319552844544 * pow2 ((- 3) - 52)"
    and "binary64 (5404319552844595 / 36028797018963968) = of_int 5404319552844595 * pow2 ((- 3) - 52)"
    and "binary64 (788129934789837 / 4503599627370496) = of_int 6305039478318696 * pow2 ((- 3) - 52)"
    and "binary64 (29206669829258403248756220714025 / 162259276829213363391578010288128) = of_int 6485183463413514 * pow2 ((- 3) - 52)"
    and "binary64 (1 / 5) = of_int 7205759403792794 * pow2 ((- 3) - 52)"
    and "binary64 (3602879701896397 / 18014398509481984) = of_int 7205759403792794 * pow2 ((- 3) - 52)"
    and "binary64 (- (7566047373982433 / 36028797018963968)) = of_int (- 7566047373982433) * pow2 ((- 3) - 52)"
    and "binary64 (- (19471113219505603967277331424215 / 81129638414606681695789005144064)) = of_int (- 8646911284551352) * pow2 ((- 3) - 52)"
    and "binary64 (- (2612087783874875 / 9007199254740992)) = of_int (- 5224175567749750) * pow2 ((- 2) - 52)"
    and "binary64 (21110623253299 / 70368744177664) = of_int 5404319552844544 * pow2 ((- 2) - 52)"
    and "binary64 (- (3 / 10)) = of_int (- 5404319552844595) * pow2 ((- 2) - 52)"
    and "binary64 (3 / 10) = of_int 5404319552844595 * pow2 ((- 2) - 52)"
    and "binary64 (29206669829258403248756220714025 / 81129638414606681695789005144064) = of_int 6485183463413514 * pow2 ((- 2) - 52)"
    and "binary64 (2 / 5) = of_int 7205759403792794 * pow2 ((- 2) - 52)"
    and "binary64 (1 / 2) = of_int 4503599627370496 * pow2 ((- 1) - 52)"
    and "binary64 (3 / 5) = of_int 5404319552844595 * pow2 ((- 1) - 52)"
    and "binary64 (4 / 5) = of_int 7205759403792794 * pow2 ((- 1) - 52)"
    and "binary64 (1) = of_int 4503599627370496 * pow2 (0 - 52)"
    and "binary64 (2364389804369511 / 2251799813685248) = of_int 4728779608739022 * pow2 (0 - 52)"
    and "binary64 (- (3152519739159347 / 2251799813685248)) = of_int (- 6305039478318694) * pow2 (0 - 52)"
    and "binary64 (2) = of_int 4503599627370496 * pow2 (1 - 52)"
    and "binary64 (3) = of_int 6755399441055744 * pow2 (1 - 52)"
    and "binary64 (6) = of_int 6755399441055744 * pow2 (2 - 52)"
    and "binary64 (- 15) = of_int (- 8444249301319680) * pow2 (3 - 52)"
    and "binary64 (184 / 5) = of_int 5179139571476070 * pow2 (5 - 52)"
    and "binary64 (95) = of_int 6685030696878080 * pow2 (6 - 52)"
    and "binary64 (214033572290782823 / 2251799813685248) = of_int 6688549134086963 * pow2 (6 - 52)"
    and "binary64 (97) = of_int 6825768185233408 * pow2 (6 - 52)"
  by (rule binary64_eq; simp add: pow2_def)+

lemma binary64_tie_values:
  shows "binary64 (- (14411518807585587 / 288230376151711744)) = of_int (- 7205759403792794) * pow2 ((- 5) - 52)"
    and "binary64 (14987979559888847 / 288230376151711744) = of_int 7493989779944424 * pow2 ((- 5) - 52)"
    and "binary64 (- (16212958658533785 / 18014398509481984)) = of_int (- 8106479329266892) * pow2 ((- 1) - 52)"
  by (rule binary64_tie; simp add: pow2_def)+

text \<open>The scores the code computes at three inputs.\<close>

lemma scores_zero_point: "scores_fl binary64 70 5 36.5 =
      [(''calm'', 0), (''happy'', 0), (''stressed'', 0), (''focused'', 0), (''neutral'', 0)]"
  by (simp add: scores_fl_def features_fl_def binary64_zero)

lemma scores_baseline_point: "scores_fl binary64 72 6 (binary64 36.8) =
      [(''calm'', - (5764607523034317 / 288230376151711744)),
       (''happy'', 936748722493053 / 18014398509481984),
       (''stressed'', 5548434740920461 / 72057594037927936),
       (''focused'', 5908722711110071 / 144115188075855872),
       (''neutral'', - (2612087783874875 / 9007199254740992))]"
  by (simp add: scores_fl_def features_fl_def binary64_values binary64_tie_values pow2_def)

lemma scores_real_tie_point: "scores_fl binary64 55 11 37.5 =
      [(''calm'', 1261007895663739 / 18014398509481984),
       (''happy'', - (360287970189639 / 36028797018963968)),
       (''stressed'', 5044031582654955 / 72057594037927936),
       (''focused'', - (720575940379279 / 72057594037927936)),
       (''neutral'', - (3152519739159347 / 2251799813685248))]"
  by (simp add: scores_fl_def features_fl_def binary64_values binary64_tie_values pow2_def)

subsection \<open>The computed confidence\<close>

lemma confidence_binary64_bounds:
  assumes "valid_draw r"
  shows "94 \<le> binary64 (94 + binary64 (r * 6)) \<and> binary64 (94 + binary64 (r * 6)) \<le> 100
     \<and> \<bar>binary64 (94 + binary64 (r * 6)) - (94 + 6 * r)\<bar> \<le> pow2 (- 46)"
proof -
  let ?a = "binary64 (r * 6)"
  have r: "0 \<le> r" "r < 1"
    using assms by (simp_all add: valid_draw_def)
  have s1: "\<bar>r * 6\<bar> < pow2 (0 + 53)" and s2: "\<bar>r * 6\<bar> < pow2 (- 50 + 53)"
    using r by (simp_all add: pow2_def)
  have l1: "of_int 0 * pow2 0 \<le> r * 6" and u1: "r * 6 \<le> of_int 6 * pow2 0"
    using r by (simp_all add: pow2_def)
  have a: "0 \<le> ?a" "?a \<le> 6"
    using binary64_lower [OF l1 s1] binary64_upper [OF u1 s1] by (simp_all add: pow2_def)
  have ea: "\<bar>?a - r * 6\<bar> \<le> pow2 (- 50) / 2"
    using s2 by (rule binary64_error)
  have b1: "\<bar>94 + ?a\<bar> < pow2 (0 + 53)" and b2: "\<bar>94 + ?a\<bar> < pow2 (- 46 + 53)"
    using a by (simp_all add: pow2_def)
  have l2: "of_int 94 * pow2 0 \<le> 94 + ?a" and u2: "94 + ?a \<le> of_int 100 * pow2 0"
    using a by (simp_all add: pow2_def)
  have b: "94 \<le> binary64 (94 + ?a)" "binary64 (94 + ?a) \<le> 100"
    using binary64_lower [OF l2 b1] binary64_upper [OF u2 b1] by (simp_all add: pow2_def)
  have eb: "\<bar>binary64 (94 + ?a) - (94 + ?a)\<bar> \<le> pow2 (- 46) / 2"
    using b2 by (rule binary64_error)
  have "pow2 (- 50) \<le> pow2 (- 46)"
    by (simp add: pow2_le)
  then have "\<bar>binary64 (94 + ?a) - (94 + 6 * r)\<bar> \<le> pow2 (- 46)"
    using ea eb by linarith
  with b show ?thesis
    by simp
qed

lemma toFixed_nearest:
  assumes "0 \<le> x"
  shows "\<exists>n. toFixed 1 x = of_int n / 10 \<and> \<bar>of_int n / 10 - x\<bar> \<le> 1 / 20"
proof -
  let ?n = "\<lfloor>x * 10 + 1 / 2\<rfloor>"
  have t: "toFixed 1 x = of_int ?n / 10"
    using assms by (simp add: toFixed_def)
  have "of_int ?n \<le> x * 10 + 1 / 2" and "x * 10 + 1 / 2 < of_int ?n + 1"
    by linarith+
  then have "\<bar>of_int ?n / 10 - x\<bar> \<le> 1 / 20"
    by linarith
  with t show ?thesis
    by blast
qed

lemma binary64_between:
  assumes "94 \<le> x" and "x \<le> 100"
  shows "94 \<le> binary64 x \<and> binary64 x \<le> 100"
proof -
  have s: "\<bar>x\<bar> < pow2 (0 + 53)"
    using assms by (simp add: pow2_def)
  have l: "of_int 94 * pow2 0 \<le> x" and u: "x \<le> of_int 100 * pow2 0"
    using assms by (simp_all add: pow2_def)
  show ?thesis
    using binary64_lower [OF l s] binary64_upper [OF u s] by (simp add: pow2_def)
qed

section \<open>The properties\<close>

subsection \<open>Seeding at the baseline\<close>

text \<open>
  Claim C3. With no previous reading and the three channel draws at the midpoint \<open>1/2\<close>
  (zero perturbation), \<open>generateSensorData\<close> returns a reading whose triple is exactly
  heartRate = 72, eda = 6, temperature = 36.8, whatever the confidence draw and the clock.
\<close>

theorem seed_baseline:
  "\<exists>s. generateSensorData now None
          \<lparr>r_heartRate = 1 / 2, r_eda = 1 / 2, r_temperature = 1 / 2, r_confidence = r\<rparr> = Inr s
       \<and> heartRate s = 72 \<and> eda s = 6 \<and> temperature s = 36.8"
  by (simp add: generateSensorData_Inr rawHeartRate_def rawEda_def rawTemperature_def
      or_base_def toFixed_def)

subsection \<open>Confidence\<close>

text \<open>
  Claim C7, as amended. For every input triple and every draw \<open>r\<close> in \<open>[0, 1)\<close>, the
  classifier's confidence is \<open>min (94 + r * 6) 100\<close> evaluated in binary64 arithmetic; it is
  within \<open>2\<close> to the power \<open>-46\<close> of the exact \<open>94 + 6 r\<close> and lies in \<open>[94, 100]\<close>. The
  reading stores a multiple of one tenth that is within one twentieth of the computed
  confidence, read back as a binary64 number, and the stored value lies in \<open>[94, 100]\<close>.
\<close>

theorem confidence_rounded:
  assumes "valid_draw r"
  shows "\<exists>c. classifyEmotion_fl binary64 hr ed tmp r = Inr c
       \<and> c_confidence c = min (binary64 (94 + binary64 (r * 6))) 100
       \<and> \<bar>c_confidence c - (94 + 6 * r)\<bar> \<le> pow2 (- 46)
       \<and> 94 \<le> c_confidence c \<and> c_confidence c \<le> 100
       \<and> (r_confidence rnd = r \<longrightarrow>
           (\<exists>s n. generateSensorData_fl binary64 now prev rnd = Inr s
              \<and> confidence s = binary64 (of_int n / 10)
              \<and> \<bar>of_int n / 10 - c_confidence c\<bar> \<le> 1 / 20
              \<and> 94 \<le> confidence s \<and> confidence s \<le> 100))"
proof -
  define c where "c = min (binary64 (94 + binary64 (r * 6))) 100"
  note cb = confidence_binary64_bounds [OF assms]
  have ceq: "c = binary64 (94 + binary64 (r * 6))"
    using cb by (simp add: c_def)
  have cr: "94 \<le> c" "c \<le> 100" "\<bar>c - (94 + 6 * r)\<bar> \<le> pow2 (- 46)"
    using cb unfolding ceq by simp_all
  obtain n where n: "toFixed 1 c = of_int n / 10" "\<bar>of_int n / 10 - c\<bar> \<le> 1 / 20"
    using toFixed_nearest [of c] cr(1) by auto
  have "of_int 940 / 10 ^ 1 \<le> toFixed 1 c \<and> toFixed 1 c \<le> of_int 1000 / 10 ^ 1"
    by (rule toFixed_bounds) (use cr in simp_all)
  then have "94 \<le> toFixed 1 c" "toFixed 1 c \<le> 100"
    by simp_all
  then have s: "94 \<le> binary64 (toFixed 1 c)" "binary64 (toFixed 1 c) \<le> 100"
    using binary64_between by blast+
  have st: "binary64 (toFixed 1 c) = binary64 (of_int n / 10)"
    by (simp only: n(1))
  have cls: "classifyEmotion_fl binary64 hr ed tmp r
      = Inr \<lparr>c_emotion = fst (selected_fl binary64 hr ed tmp), c_confidence = c\<rparr>"
    by (simp only: classifyEmotion_fl_Inr c_def)
  have gen: "r_confidence rnd = r \<Longrightarrow>
      \<exists>s. generateSensorData_fl binary64 now prev rnd = Inr s
        \<and> confidence s = binary64 (toFixed 1 c)"
    by (simp add: generateSensorData_fl_Inr c_def)
  have "c_confidence \<lparr>c_emotion = fst (selected_fl binary64 hr ed tmp), c_confidence = c\<rparr> = c"
    by simp
  then show ?thesis
    using cls gen cr s st n(2) c_def by metis
qed

theorem confidence_rounded_witness:
  "valid_draw (1 / 2)
   \<and> (\<exists>c. classifyEmotion_fl binary64 72 6 (binary64 36.8) (1 / 2) = Inr c
        \<and> c_confidence c = 97)
   \<and> (\<exists>s. generateSensorData_fl binary64 0 None midpoint = Inr s \<and> confidence s = 97)
   \<and> (\<exists>c. classifyEmotion_fl binary64 72 6 (binary64 36.8) (1 / 2) = Inr c
       \<and> c_confidence c = min (binary64 (94 + binary64 (1 / 2 * 6))) 100
       \<and> \<bar>c_confidence c - (94 + 6 * (1 / 2))\<bar> \<le> pow2 (- 46)
       \<and> 94 \<le> c_confidence c \<and> c_confidence c \<le> 100
       \<and> (\<exists>s n. generateSensorData_fl binary64 0 None midpoint = Inr s
              \<and> confidence s = binary64 (of_int n / 10)
              \<and> \<bar>of_int n / 10 - c_confidence c\<bar> \<le> 1 / 20
              \<and> 94 \<le> confidence s \<and> confidence s \<le> 100))"
proof (intro conjI)
  show v: "valid_draw (1 / 2)"
    by (simp add: valid_draw_def)
  have m: "r_confidence midpoint = 1 / 2"
    by (simp add: midpoint_def)
  show "\<exists>c. classifyEmotion_fl binary64 72 6 (binary64 36.8) (1 / 2) = Inr c
        \<and> c_confidence c = 97"
    by (simp add: classifyEmotion_fl_Inr binary64_values pow2_def)
  show "\<exists>s. generateSensorData_fl binary64 0 None midpoint = Inr s \<and> confidence s = 97"
    by (simp add: generateSensorData_fl_Inr midpoint_def toFixed_def binary64_values pow2_def)
  show "\<exists>c. classifyEmotion_fl binary64 72 6 (binary64 36.8) (1 / 2) = Inr c
       \<and> c_confidence c = min (binary64 (94 + binary64 (1 / 2 * 6))) 100
       \<and> \<bar>c_confidence c - (94 + 6 * (1 / 2))\<bar> \<le> pow2 (- 46)
       \<and> 94 \<le> c_confidence c \<and> c_confidence c \<le> 100
       \<and> (\<exists>s n. generateSensorData_fl binary64 0 None midpoint = Inr s
              \<and> confidence s = binary64 (of_int n / 10)
              \<and> \<bar>of_int n / 10 - c_confidence c\<bar> \<le> 1 / 20
              \<and> 94 \<le> confidence s \<and> confidence s \<le> 100)"
    using confidence_rounded [OF v, of 72 6 "binary64 36.8" midpoint 0 None] m by blast
qed

text \<open>
  The claim as written fails for the exact \<open>94 + 6 r\<close>: at the binary64 draw
  \<open>r = 788129934789837 / 2^52\<close> the exact value is just above 95.05 and rounds to 95.1, while
  the sum the code computes is just below 95.05 and the reading stores 95.
\<close>

theorem confidence_formula_counterexample:
  "valid_draw (788129934789837 / 4503599627370496)
   \<and> binary64 (788129934789837 / 4503599627370496) = 788129934789837 / 4503599627370496
   \<and> map_sum id c_confidence
        (classifyEmotion_fl binary64 72 6 (binary64 36.8) (788129934789837 / 4503599627370496))
      = Inr (6688549134086963 / 70368744177664)
   \<and> map_sum id confidence
        (generateSensorData_fl binary64 0 None
           \<lparr>r_heartRate = 1 / 2, r_eda = 1 / 2, r_temperature = 1 / 2,
              r_confidence = 788129934789837 / 4503599627370496\<rparr>)
      = Inr 95
   \<and> toFixed 1 (min (94 + 6 * (788129934789837 / 4503599627370496)) 100) = 951 / 10"
  by (simp add: valid_draw_def classifyEmotion_fl_Inr generateSensorData_fl_Inr toFixed_def
      binary64_values pow2_def)

subsection \<open>The label does not depend on the draw\<close>

text \<open>
  Claim C8. For a fixed input triple, two calls of \<open>classifyEmotion\<close> with different draws
  both return, and return the same emotion label: the draw reaches the confidence only.
\<close>

theorem label_independent_of_draw:
  "\<exists>c1 c2. classifyEmotion hr ed tmp r1 = Inr c1 \<and> classifyEmotion hr ed tmp r2 = Inr c2
     \<and> c_emotion c1 = c_emotion c2"
  by (simp add: classifyEmotion_Inr)

subsection \<open>Which label the classifier selects\<close>

text \<open>
  Claim C2, as amended. The entries are enumerated in the order calm, happy, stressed, focused,
  neutral, and for every input triple, whatever the rounding of the arithmetic (so for
  binary64, the arithmetic of the code), \<open>classifyEmotion\<close> returns the label of the last
  maximum of the five computed scores: no computed score is larger, and every later entry
  has a strictly smaller one. Ties between computed scores therefore go to the later label.
  In binary64, at (70, 5, 36.5) all five computed scores are zero and the label is neutral,
  and at (72, 6, 36.8) the label is stressed.
\<close>

theorem classify_selects_last_max:
  "map fst (scores_fl fl hr ed tmp) = labels
   \<and> (\<exists>c i. classifyEmotion_fl fl hr ed tmp r = Inr c \<and> last_max_at (scores_fl fl hr ed tmp) i
        \<and> c_emotion c = labels ! i)
   \<and> map snd (scores_fl binary64 70 5 36.5) = [0, 0, 0, 0, 0]
   \<and> (\<exists>c. classifyEmotion_fl binary64 70 5 36.5 r = Inr c \<and> c_emotion c = ''neutral'')
   \<and> (\<exists>c. classifyEmotion_fl binary64 72 6 (binary64 36.8) r = Inr c
        \<and> c_emotion c = ''stressed'')"
proof (intro conjI)
  show "map fst (scores_fl fl hr ed tmp) = labels"
    by (rule scores_fl_labels)
  obtain i where i: "last_max_at (scores_fl fl hr ed tmp) i"
    and s: "selected_fl fl hr ed tmp = scores_fl fl hr ed tmp ! i"
    using selected_fl_last_max by blast
  have il: "i < length (scores_fl fl hr ed tmp)"
    using i by (simp add: last_max_at_def)
  have "fst (selected_fl fl hr ed tmp) = map fst (scores_fl fl hr ed tmp) ! i"
    using il s by simp
  then have "fst (selected_fl fl hr ed tmp) = labels ! i"
    by (simp only: scores_fl_labels)
  with i show "\<exists>c i. classifyEmotion_fl fl hr ed tmp r = Inr c
      \<and> last_max_at (scores_fl fl hr ed tmp) i \<and> c_emotion c = labels ! i"
    by (simp add: classifyEmotion_fl_Inr) blast
  show "map snd (scores_fl binary64 70 5 36.5) = [0, 0, 0, 0, 0]"
    unfolding scores_zero_point by simp
  have "fst (selected_fl binary64 70 5 36.5) = ''neutral''"
    unfolding selected_fl_def scores_zero_point by (simp add: pick_max_def)
  then show "\<exists>c. classifyEmotion_fl binary64 70 5 36.5 r = Inr c \<and> c_emotion c = ''neutral''"
    by (simp add: classifyEmotion_fl_Inr)
  have "fst (selected_fl binary64 72 6 (binary64 36.8)) = ''stressed''"
    unfolding selected_fl_def scores_baseline_point by (simp add: pick_max_def)
  then show "\<exists>c. classifyEmotion_fl binary64 72 6 (binary64 36.8) r = Inr c
      \<and> c_emotion c = ''stressed''"
    by (simp add: classifyEmotion_fl_Inr)
qed

theorem classify_selects_last_max_witness:
  "scores_fl binary64 55 11 37.5 =
      [(''calm'', 1261007895663739 / 18014398509481984),
       (''happy'', - (360287970189639 / 36028797018963968)),
       (''stressed'', 5044031582654955 / 72057594037927936),
       (''focused'', - (720575940379279 / 72057594037927936)),
       (''neutral'', - (3152519739159347 / 2251799813685248))]
   \<and> last_max_at (scores_fl binary64 55 11 37.5) 0
   \<and> (\<exists>c. classifyEmotion_fl binary64 55 11 37.5 (1 / 2) = Inr c \<and> c_emotion c = ''calm'')
   \<and> scores 55 11 37.5 =
       [(''calm'', 7 / 100), (''happy'', - (1 / 100)), (''stressed'', 7 / 100),
        (''focused'', - (1 / 100)), (''neutral'', - (7 / 5))]
   \<and> map fst (scores_fl binary64 55 11 37.5) = labels
   \<and> (\<exists>c i. classifyEmotion_fl binary64 55 11 37.5 (1 / 2) = Inr c
        \<and> last_max_at (scores_fl binary64 55 11 37.5) i \<and> c_emotion c = labels ! i)"
proof -
  note a = scores_real_tie_point
  have b: "last_max_at (scores_fl binary64 55 11 37.5) 0"
    unfolding a by (auto simp add: last_max_at_def less_Suc_eq)
  have "fst (selected_fl binary64 55 11 37.5) = ''calm''"
    unfolding selected_fl_def a by (simp add: pick_max_def)
  then have c: "\<exists>c. classifyEmotion_fl binary64 55 11 37.5 (1 / 2) = Inr c \<and> c_emotion c = ''calm''"
    by (simp add: classifyEmotion_fl_Inr)
  have d: "scores 55 11 37.5 =
       [(''calm'', 7 / 100), (''happy'', - (1 / 100)), (''stressed'', 7 / 100),
        (''focused'', - (1 / 100)), (''neutral'', - (7 / 5))]"
    by (simp add: scores_def features_def)
  note e = classify_selects_last_max [of binary64 55 11 "37.5" "1 / 2"]
  from a b c d e show ?thesis
    by blast
qed

text \<open>
  The claim as written fails, in exact arithmetic as well: at (72, 6, 36.8) the normalised
  features are not zero and the selected label is stressed, not calm; at (70, 5, 36.5), where
  all five scores are zero, the selected label is neutral, not calm.
\<close>

theorem classify_tie_counterexample:
  "classifyEmotion 72 6 36.8 (1 / 2) = Inr \<lparr>c_emotion = ''stressed'', c_confidence = 97\<rparr>
   \<and> map snd (scores 70 5 36.5) = [0, 0, 0, 0, 0]
   \<and> classifyEmotion 70 5 36.5 (1 / 2) = Inr \<lparr>c_emotion = ''neutral'', c_confidence = 97\<rparr>"
  by (simp add: classifyEmotion_def scores_def features_def pick_max_def)

subsection \<open>The label set is closed\<close>

text \<open>
  Claim C10. For every input triple the label returned by \<open>classifyEmotion\<close> is one of calm,
  happy, stressed, focused, neutral. Hence the emotion of every reading that
  \<open>generateSensorData\<close> returns has an entry in \<open>EMOTIONS\<close>, the lookups of the current
  emotion, its icon, the pie name and the pie colour all come from that entry (no fallback is
  taken), and the same holds for the readings of every reachable state.
\<close>

theorem labels_closed:
  "(\<exists>c. classifyEmotion hr ed tmp r = Inr c \<and> c_emotion c \<in> set labels)
   \<and> (\<exists>s es. generateSensorData now prev rnd = Inr s \<and> emotion s \<in> set labels
        \<and> EMOTIONS (emotion s) = Some es
        \<and> currentEmotion (Some s) = Some es \<and> EmotionIcon (Some s) = Inr (es_icon es)
        \<and> pieName (emotion s) = es_emotion es \<and> pieFill (emotion s) = es_color es)
   \<and> (reachable st \<longrightarrow>
        list_all (\<lambda>s. known_emotion (emotion s)) (sensorData st)
        \<and> (\<exists>l es. currentReading st = Some l \<and> currentEmotion (currentReading st) = Some es
             \<and> EmotionIcon (currentReading st) = Inr (es_icon es)))"
proof (intro conjI impI)
  show "\<exists>c. classifyEmotion hr ed tmp r = Inr c \<and> c_emotion c \<in> set labels"
    using selected_label by (simp add: classifyEmotion_Inr)
next
  let ?e = "fst (selected (rawHeartRate prev rnd) (rawEda prev rnd) (rawTemperature prev rnd))"
  have "known_emotion ?e"
    using selected_label by (rule labels_known)
  then obtain es where es: "EMOTIONS ?e = Some es" "es_emotion es \<noteq> []" "es_color es \<noteq> []"
    by (auto simp: known_emotion_def split: option.splits)
  show "\<exists>s es. generateSensorData now prev rnd = Inr s \<and> emotion s \<in> set labels
        \<and> EMOTIONS (emotion s) = Some es
        \<and> currentEmotion (Some s) = Some es \<and> EmotionIcon (Some s) = Inr (es_icon es)
        \<and> pieName (emotion s) = es_emotion es \<and> pieFill (emotion s) = es_color es"
    using es selected_label
    by (simp add: generateSensorData_Inr currentEmotion_def EmotionIcon_def
        pieName_def pieFill_def or_string_def)
next
  assume "reachable st"
  then have p: "list_all produced (sensorData st)"
    and "\<exists>l. currentReading st = Some l \<and> produced l"
    by (simp_all add: reachable_produced)
  then obtain l where l: "currentReading st = Some l" "known_emotion (emotion l)"
    using produced_known by blast
  then obtain es where "EMOTIONS (emotion l) = Some es"
    by (auto simp: known_emotion_def split: option.splits)
  with l(1) show "\<exists>l es. currentReading st = Some l \<and> currentEmotion (currentReading st) = Some es
             \<and> EmotionIcon (currentReading st) = Inr (es_icon es)"
    by (simp add: currentEmotion_def EmotionIcon_def)
  show "list_all (\<lambda>s. known_emotion (emotion s)) (sensorData st)"
    using p produced_known by (rule list_all_mono)
qed

theorem labels_closed_witness:
  "reachable mounted_midpoint
   \<and> list_all (\<lambda>s. known_emotion (emotion s)) (sensorData mounted_midpoint)
   \<and> (\<exists>l es. currentReading mounted_midpoint = Some l
         \<and> currentEmotion (currentReading mounted_midpoint) = Some es
         \<and> EmotionIcon (currentReading mounted_midpoint) = Inr (es_icon es))
   \<and> known_emotion ''stressed'' \<and> \<not> known_emotion ''excited''"
proof -
  have k: "known_emotion ''stressed'' \<and> \<not> known_emotion ''excited''"
    by (simp add: known_emotion_def EMOTIONS_def)
  show ?thesis
    using reachable_mounted_midpoint k
      labels_closed [of 72 6 "36.8" "1 / 2" 0 None midpoint mounted_midpoint]
    by blast
qed

subsection \<open>Channel bounds\<close>

text \<open>
  Claim C5. For every previous reading and all draws, the reading \<open>generateSensorData\<close>
  returns has its rounded channels within bounds: heartRate in [50, 120], eda in [2, 15],
  temperature in [35.5, 38.5]. Hence every reading in the history of a reachable state, and
  its current reading, is within bounds.
\<close>

theorem channels_in_bounds:
  "(\<exists>s. generateSensorData now prev rnd = Inr s \<and> in_bounds s)
   \<and> (reachable st \<longrightarrow>
        list_all in_bounds (sensorData st) \<and> (\<exists>l. currentReading st = Some l \<and> in_bounds l))"
proof (intro conjI impI)
  obtain s where s: "generateSensorData now prev rnd = Inr s"
    using generate_total by blast
  then have "in_bounds s"
    by (rule generate_in_bounds)
  with s show "\<exists>s. generateSensorData now prev rnd = Inr s \<and> in_bounds s"
    by blast
next
  assume "reachable st"
  then have p: "list_all produced (sensorData st)"
    and "\<exists>l. currentReading st = Some l \<and> produced l"
    by (simp_all add: reachable_produced)
  then show "\<exists>l. currentReading st = Some l \<and> in_bounds l"
    using produced_in_bounds by blast
  show "list_all in_bounds (sensorData st)"
    using p produced_in_bounds by (rule list_all_mono)
qed

theorem channels_in_bounds_witness:
  "reachable mounted_midpoint
   \<and> (\<exists>s. generateSensorData 0 None midpoint = Inr s \<and> in_bounds s)
   \<and> list_all in_bounds (sensorData mounted_midpoint)
   \<and> (\<exists>l. currentReading mounted_midpoint = Some l \<and> in_bounds l)"
  using reachable_mounted_midpoint channels_in_bounds [of 0 None midpoint mounted_midpoint]
  by blast

subsection \<open>What the stored emotion is the classification of\<close>

text \<open>
  Claim C4, as amended. The emotion and confidence of a reading are the result of classifying
  the clamped triple before rounding: the stored channels are the roundings of that triple,
  the stored emotion is the label \<open>classifyEmotion\<close> selects for it, and the stored confidence
  is its confidence rounded to one decimal. When rounding leaves the triple unchanged, the
  stored emotion is the label of the stored triple. Every reading of a reachable state is made
  this way.
\<close>

theorem emotion_from_unrounded_triple:
  "(\<exists>s c. generateSensorData now prev rnd = Inr s
       \<and> classifyEmotion (rawHeartRate prev rnd) (rawEda prev rnd) (rawTemperature prev rnd)
            (r_confidence rnd) = Inr c
       \<and> heartRate s = toFixed 1 (rawHeartRate prev rnd)
       \<and> eda s = toFixed 2 (rawEda prev rnd)
       \<and> temperature s = toFixed 1 (rawTemperature prev rnd)
       \<and> emotion s = c_emotion c
       \<and> confidence s = toFixed 1 (c_confidence c)
       \<and> (heartRate s = rawHeartRate prev rnd \<and> eda s = rawEda prev rnd
            \<and> temperature s = rawTemperature prev rnd \<longrightarrow>
          (\<exists>c'. classifyEmotion (heartRate s) (eda s) (temperature s) r' = Inr c'
             \<and> emotion s = c_emotion c')))
   \<and> (reachable st \<longrightarrow>
        list_all produced (sensorData st) \<and> (\<exists>l. currentReading st = Some l \<and> produced l))"
  by (simp add: generateSensorData_Inr classifyEmotion_Inr reachable_produced)

theorem emotion_from_unrounded_triple_witness:
  "reachable mounted_midpoint
   \<and> list_all produced (sensorData mounted_midpoint)
   \<and> (\<exists>s. generateSensorData 0 None midpoint = Inr s
        \<and> heartRate s = rawHeartRate None midpoint \<and> eda s = rawEda None midpoint
        \<and> temperature s = rawTemperature None midpoint
        \<and> (\<exists>c'. classifyEmotion (heartRate s) (eda s) (temperature s) (1 / 3) = Inr c'
             \<and> emotion s = c_emotion c'))"
proof -
  have g: "generateSensorData 0 None midpoint = Inr \<lparr>timestamp = 0, heartRate = 72, eda = 6,
      temperature = 36.8, emotion = ''stressed'', confidence = 97\<rparr>"
    by (simp add: midpoint_def generateSensorData_def rawHeartRate_def rawEda_def
        rawTemperature_def or_base_def toFixed_def classifyEmotion_def scores_def features_def
        pick_max_def)
  have r: "rawHeartRate None midpoint = 72" "rawEda None midpoint = 6"
    "rawTemperature None midpoint = 36.8"
    by (simp_all add: midpoint_def rawHeartRate_def rawEda_def rawTemperature_def or_base_def)
  show ?thesis
    using reachable_mounted_midpoint
      emotion_from_unrounded_triple [of 0 None midpoint "1 / 3" mounted_midpoint]
    by (auto simp add: g r)
qed

text \<open>
  The claim as written fails for the stored triple: the first reading pushed after a midpoint
  seed, with draws 0.5, 0.345 and 0.6, has the unrounded triple (72, 5.69, 36.84), labelled
  happy; it is stored as (72, 5.69, 36.8), which \<open>classifyEmotion\<close> labels stressed.
\<close>

theorem stored_triple_counterexample:
  "generateSensorData 0 None midpoint =
     Inr \<lparr>timestamp = 0, heartRate = 72, eda = 6, temperature = 36.8,
          emotion = ''stressed'', confidence = 97\<rparr>
   \<and> generateSensorData 30000
       (Some \<lparr>timestamp = 0, heartRate = 72, eda = 6, temperature = 36.8,
          emotion = ''stressed'', confidence = 97\<rparr>)
       \<lparr>r_heartRate = 1 / 2, r_eda = 0.345, r_temperature = 0.6, r_confidence = 1 / 2\<rparr> =
     Inr \<lparr>timestamp = 30000, heartRate = 72, eda = 5.69, temperature = 36.8,
          emotion = ''happy'', confidence = 97\<rparr>
   \<and> classifyEmotion 72 5.69 36.8 (1 / 2) = Inr \<lparr>c_emotion = ''stressed'', c_confidence = 97\<rparr>"
  by (simp add: midpoint_def generateSensorData_def rawHeartRate_def rawEda_def
      rawTemperature_def or_base_def toFixed_def classifyEmotion_def scores_def features_def
      pick_max_def)

subsection \<open>The dominant emotion\<close>

text \<open>
  Claim C6, as amended. On an empty history the dominant emotion is the string N/A. On a
  non-empty history of readings labelled with the five emotions, the counts object lists the
  emotions in the order of their first occurrence with their numbers of occurrences, and the
  dominant emotion is returned (nothing is thrown) and is the last maximum of that list: no
  emotion occurs more often, and every emotion first seen later occurs strictly less often.
\<close>

theorem dominant_last_max:
  "dominantEmotion [] = Inr ''N/A''
   \<and> (h \<noteq> [] \<and> list_all (\<lambda>s. emotion s \<in> set labels) h \<longrightarrow>
        emotionCounts h = map (\<lambda>k. (k, count_list (map emotion h) k)) (first_seen (map emotion h))
        \<and> (\<exists>i. dominantEmotion h = Inr (first_seen (map emotion h) ! i)
              \<and> last_max_at (emotionCounts h) i))"
proof (intro conjI impI)
  show "dominantEmotion [] = Inr ''N/A''"
    by (simp add: dominantEmotion_def)
next
  show "emotionCounts h = map (\<lambda>k. (k, count_list (map emotion h) k)) (first_seen (map emotion h))"
    by (rule emotionCounts_eq)
next
  assume "h \<noteq> [] \<and> list_all (\<lambda>s. emotion s \<in> set labels) h"
  then have h: "h \<noteq> []" by simp
  let ?ks = "first_seen (map emotion h)"
  have "emotionCounts h \<noteq> []"
    using h by (simp add: emotionCounts_eq first_seen_empty)
  then obtain x xs where ec: "emotionCounts h = x # xs"
    by (cases "emotionCounts h") simp_all
  obtain i where i: "last_max_at (x # xs) i" and f: "foldl pick_max x xs = (x # xs) ! i"
    using foldl_pick_max_last_max by blast
  have il: "i < length ?ks"
    using i ec [symmetric] by (simp add: last_max_at_def emotionCounts_eq)
  have "fst (emotionCounts h ! i) = ?ks ! i"
    using il by (simp add: emotionCounts_eq)
  then have "dominantEmotion h = Inr (?ks ! i)"
    using h f by (simp add: dominantEmotion_def ec)
  with i show "\<exists>i. dominantEmotion h = Inr (?ks ! i) \<and> last_max_at (emotionCounts h) i"
    unfolding ec by blast
qed

theorem dominant_last_max_witness:
  "[calm_reading, neutral_reading] \<noteq> []
   \<and> list_all (\<lambda>s. emotion s \<in> set labels) [calm_reading, neutral_reading]
   \<and> emotionCounts [calm_reading, neutral_reading] = [(''calm'', 1), (''neutral'', 1)]
   \<and> last_max_at (emotionCounts [calm_reading, neutral_reading]) 1
   \<and> (\<exists>i. dominantEmotion [calm_reading, neutral_reading]
          = Inr (first_seen (map emotion [calm_reading, neutral_reading]) ! i)
        \<and> last_max_at (emotionCounts [calm_reading, neutral_reading]) i)"
proof -
  have a: "list_all (\<lambda>s. emotion s \<in> set labels) [calm_reading, neutral_reading]"
    by (simp add: labels_def calm_reading_def neutral_reading_def)
  have b: "emotionCounts [calm_reading, neutral_reading] = [(''calm'', 1), (''neutral'', 1)]"
    by (simp add: emotionCounts_def calm_reading_def neutral_reading_def)
  have c: "last_max_at (emotionCounts [calm_reading, neutral_reading]) 1"
    unfolding b by (auto simp add: last_max_at_def less_Suc_eq)
  have d: "[calm_reading, neutral_reading] \<noteq> []"
    by simp
  from a b c d dominant_last_max [of "[calm_reading, neutral_reading]"] show ?thesis
    by blast
qed

text \<open>
  The claim as written fails on a tie: in the history of a calm reading followed by a neutral
  one, both emotions occur once and the dominant emotion is neutral, not calm.
\<close>

theorem dominant_tie_counterexample:
  "classifyEmotion 50 2 38.5 (1 / 2) = Inr \<lparr>c_emotion = ''calm'', c_confidence = 97\<rparr>
   \<and> classifyEmotion 70 5 36.5 (1 / 2) = Inr \<lparr>c_emotion = ''neutral'', c_confidence = 97\<rparr>
   \<and> emotionCounts [calm_reading, neutral_reading] = [(''calm'', 1), (''neutral'', 1)]
   \<and> dominantEmotion [calm_reading, neutral_reading] = Inr ''neutral''"
  by (simp add: classifyEmotion_def scores_def features_def pick_max_def
      dominantEmotion_def emotionCounts_def calm_reading_def neutral_reading_def)

subsection \<open>The retained history\<close>

text \<open>
  Claim C1 fails on the code. Appending to a history of 100 readings keeps all of them and
  adds the new one: the history then holds 101 readings and the first one is still present.
  Appending 101 readings to the empty history gives the same 101 readings, and a state with
  101 readings is reachable.
\<close>

theorem history_exceeds_cap:
  "append_reading (map steady [0..<100]) (steady 100) = map steady [0..<101]
   \<and> foldl append_reading [] (map steady [0..<101]) = map steady [0..<101]
   \<and> length (map steady [0..<101]) = 101
   \<and> hd (map steady [0..<101]) = steady 0
   \<and> (\<exists>st. reachable st \<and> length (sensorData st) = 101)"
proof (intro conjI)
  have "[0..<101] = [0..<100] @ [100]"
    using upt_Suc_append [of 0 100] by simp
  then show "append_reading (map steady [0..<100]) (steady 100) = map steady [0..<101]"
    by (simp add: append_reading_short)
  show "foldl append_reading [] (map steady [0..<101]) = map steady [0..<101]"
    by (rule foldl_append_reading_short) simp
  show "length (map steady [0..<101]) = 101"
    by simp
  show "hd (map steady [0..<101]) = steady 0"
    by (simp add: hd_map upt_rec [of 0 101])
  show "\<exists>st. reachable st \<and> length (sensorData st) = 101"
    using reachable_length [of 51] by auto
qed

end
